theory Spec2Isabelle
  imports Complex_Main "HOL-Library.Word"
begin

section \<open>Identifiers, timestamps, errors and results\<close>

text \<open>
  \<^verbatim>\<open>uuid.UUID\<close> is a 16-byte array; a \<^verbatim>\<open>time.Time\<close> that reaches the database is an
  instant, modelled as an integer. A measurement's value (\<^verbatim>\<open>float64\<close>) is only stored and
  copied by the code under study, never computed with, so it is a type parameter \<open>'v\<close>.
\<close>

type_synonym uuid = "128 word"
type_synonym time = int

text \<open>
  Go errors are opaque values. \<open>DriverError\<close> stands for whatever the database driver
  reports (constraint violation, lost connection, ...); \<open>EmptySliceIn\<close> is the error
  \<^verbatim>\<open>sqlx.In\<close> returns for an empty slice argument; \<open>DecodeError\<close> is what
  \<^verbatim>\<open>json.Unmarshal\<close> reports; \<open>LibraryError\<close> is an error of another library
  (\<^verbatim>\<open>uuid.Parse\<close>, \<^verbatim>\<open>uuid.NewRandom\<close>).
\<close>

datatype error = DriverError string | EmptySliceIn | DecodeError string | LibraryError string

text \<open>
  A Go function of type \<^verbatim>\<open>(T, error)\<close> either returns a value with a nil error, returns
  an error, or panics at run time (an index out of range).
\<close>

datatype 'a result = Ok 'a | Err error | Panic string

section \<open>The data model\<close>

text \<open>
  Package \<^verbatim>\<open>timeseries\<close> (imported as \<^verbatim>\<open>ts\<close>) declares the measurement types: a point
  is a time and a value, a collection is a timeseries identifier with its points, a time
  window is a pair of bounds.
\<close>

record 'v Measurement =
  Time :: time
  Value :: 'v

record 'v MeasurementCollection =
  mc_TimeseriesID :: uuid
  mc_Items :: "'v Measurement list"

record TimeWindow =
  After :: time
  Before :: time

text \<open>The audit fields every mutable entity embeds (\<^verbatim>\<open>AuditInfo\<close>).\<close>

record AuditInfo =
  Creator :: uuid
  CreateDate :: time
  Updater :: "uuid option"
  UpdateDate :: "time option"

record PlotConfiguration =
  pc_ID :: uuid
  pc_Name :: string
  pc_Slug :: string
  pc_ProjectID :: uuid
  pc_TimeseriesID :: "uuid list"
  pc_Audit :: AuditInfo

record Project =
  p_ID :: uuid
  p_FederalID :: "string option"
  p_OfficeID :: "uuid option"
  p_Image :: "string option"
  p_Deleted :: bool
  p_Slug :: string
  p_Name :: string
  p_Timeseries :: "uuid list"
  p_InstrumentCount :: int
  p_InstrumentGroupCount :: int
  p_Audit :: AuditInfo

section \<open>The relational store and the driver\<close>

text \<open>
  The tables the statements of the code touch. A row of \<open>timeseries_measurement\<close> is
  \<open>(timeseries_id, time, value)\<close>, with the constraint \<^verbatim>\<open>timeseries_unique_time\<close> on
  \<open>(timeseries_id, time)\<close>; a row of \<open>plot_configuration_timeseries\<close> is
  \<open>(plot_configuration_id, timeseries_id)\<close>, with the constraint
  \<^verbatim>\<open>plot_configuration_unique_timeseries\<close> on the pair. A row of \<open>plot_configuration\<close>
  is kept as a \<open>PlotConfiguration\<close> whose \<open>pc_TimeseriesID\<close> is not used; \<open>v_project\<close>
  holds the rows of the view of that name.
\<close>

record 'v database =
  timeseries :: "uuid list"
  timeseries_measurement :: "(uuid \<times> time \<times> 'v) list"
  plot_configuration :: "PlotConfiguration list"
  plot_configuration_timeseries :: "(uuid \<times> uuid) list"
  v_project :: "Project list"

datatype statement = UpsertMeasurement | UpdatePlotConfig | DeleteAssociationsNotIn | InsertAssociation

text \<open>
  The handle \<^verbatim>\<open>db *sqlx.DB\<close>: the committed data; what the driver answers to each of
  its calls, by the number of the call (\<open>None\<close>: the call goes through; \<open>Some e\<close>: it
  fails with \<open>e\<close>) and the number of calls made so far; and the record the server keeps
  of every executed statement with the number of rows it affected
  (\<^verbatim>\<open>sql.Result.RowsAffected\<close>, which the code discards).
\<close>

record 'v DB =
  data :: "'v database"
  faults :: "nat \<Rightarrow> error option"
  calls :: nat
  exec_log :: "(statement \<times> nat) list"

definition driver_call :: "'v DB \<Rightarrow> error option \<times> 'v DB" where
  "driver_call db = (faults db (calls db), db\<lparr>calls := Suc (calls db)\<rparr>)"

text \<open>
  \<^verbatim>\<open>db.Begin\<close>, \<^verbatim>\<open>txn.Prepare\<close> and \<^verbatim>\<open>stmt.Close\<close> are driver calls without an effect
  on the data. A transaction works on a private copy of the data: \<^verbatim>\<open>txn.Commit\<close>
  installs the copy, \<^verbatim>\<open>txn.Rollback\<close> (whose error the code ignores) drops it.
\<close>

definition Begin :: "'v DB \<Rightarrow> error option \<times> 'v DB" where
  "Begin db = driver_call db"

definition Prepare :: "'v DB \<Rightarrow> error option \<times> 'v DB" where
  "Prepare db = driver_call db"

definition stmt_Close :: "'v DB \<Rightarrow> error option \<times> 'v DB" where
  "stmt_Close db = driver_call db"

definition Rollback :: "'v DB \<Rightarrow> 'v DB" where
  "Rollback db = snd (driver_call db)"

definition Commit :: "'v DB \<Rightarrow> 'v database \<Rightarrow> error option \<times> 'v DB" where
  "Commit db tx = (case driver_call db of
      (Some e, db') \<Rightarrow> (Some e, db')
    | (None, db') \<Rightarrow> (None, db'\<lparr>data := tx\<rparr>))"

definition logged :: "statement \<Rightarrow> nat \<Rightarrow> 'v DB \<Rightarrow> 'v DB" where
  "logged s n db = db\<lparr>exec_log := exec_log db @ [(s, n)]\<rparr>"

section \<open>Timeseries measurements\<close>

text \<open>
  \<^verbatim>\<open>INSERT INTO timeseries_measurement (timeseries_id, time, value) VALUES ($1, $2, $3)
  ON CONFLICT ON CONSTRAINT timeseries_unique_time DO UPDATE SET value = EXCLUDED.value\<close>:
  the row with the key \<open>($1, $2)\<close> gets the new value, or a new row is added.
\<close>

fun upsert :: "uuid \<Rightarrow> time \<Rightarrow> 'v \<Rightarrow> (uuid \<times> time \<times> 'v) list \<Rightarrow> (uuid \<times> time \<times> 'v) list" where
  "upsert s t v [] = [(s, t, v)]"
| "upsert s t v ((s', t', v') # rs) =
     (if s' = s \<and> t' = t then (s', t', v) # rs else (s', t', v') # upsert s t v rs)"

definition stmt_Exec_upsert ::
  "'v DB \<Rightarrow> 'v database \<Rightarrow> uuid \<Rightarrow> time \<Rightarrow> 'v \<Rightarrow> (error + 'v database) \<times> 'v DB" where
  "stmt_Exec_upsert db tx s t v = (case driver_call db of
      (Some e, db') \<Rightarrow> (Inl e, db')
    | (None, db') \<Rightarrow>
        (Inr (tx\<lparr>timeseries_measurement := upsert s t v (timeseries_measurement tx)\<rparr>),
         logged UpsertMeasurement 1 db'))"

text \<open>The inner loop \<^verbatim>\<open>for _, m := range c.Items\<close> and the outer loop \<^verbatim>\<open>for _, c := range mc\<close>.\<close>

fun exec_items ::
  "'v DB \<Rightarrow> 'v database \<Rightarrow> uuid \<Rightarrow> 'v Measurement list \<Rightarrow> (error + 'v database) \<times> 'v DB" where
  "exec_items db tx s [] = (Inr tx, db)"
| "exec_items db tx s (m # ms) = (case stmt_Exec_upsert db tx s (Time m) (Value m) of
      (Inl e, db') \<Rightarrow> (Inl e, db')
    | (Inr tx', db') \<Rightarrow> exec_items db' tx' s ms)"

fun exec_collections ::
  "'v DB \<Rightarrow> 'v database \<Rightarrow> 'v MeasurementCollection list \<Rightarrow> (error + 'v database) \<times> 'v DB" where
  "exec_collections db tx [] = (Inr tx, db)"
| "exec_collections db tx (c # cs) = (case exec_items db tx (mc_TimeseriesID c) (mc_Items c) of
      (Inl e, db') \<Rightarrow> (Inl e, db')
    | (Inr tx', db') \<Rightarrow> exec_collections db' tx' cs)"

definition CreateOrUpdateTimeseriesMeasurements ::
  "'v DB \<Rightarrow> 'v MeasurementCollection list \<Rightarrow> 'v MeasurementCollection list result \<times> 'v DB" where
  "CreateOrUpdateTimeseriesMeasurements db mc = (case Begin db of
      (Some e, db1) \<Rightarrow> (Err e, db1)
    | (None, db1) \<Rightarrow> (case Prepare db1 of
        (Some e, db2) \<Rightarrow> (Err e, Rollback db2)
      | (None, db2) \<Rightarrow> (case exec_collections db2 (data db2) mc of
          (Inl e, db3) \<Rightarrow> (Err e, Rollback db3)
        | (Inr tx, db3) \<Rightarrow> (case stmt_Close db3 of
            (Some e, db4) \<Rightarrow> (Err e, Rollback db4)
          | (None, db4) \<Rightarrow> (case Commit db4 tx of
              (Some e, db5) \<Rightarrow> (Err e, Rollback db5)
            | (None, db5) \<Rightarrow> (Ok mc, db5))))))"

text \<open>
  \<^verbatim>\<open>SELECT M.timeseries_id, M.time, M.value FROM timeseries_measurement M
  INNER JOIN timeseries T ON T.id = M.timeseries_id
  WHERE T.id = $1 AND M.time > $2 AND M.time < $3 ORDER BY M.time DESC\<close>
\<close>

definition select_measurements :: "'v database \<Rightarrow> uuid \<Rightarrow> time \<Rightarrow> time \<Rightarrow> 'v Measurement list" where
  "select_measurements d i a b =
     rev (sort_key Time
       (concat (map (\<lambda>T. concat (map (\<lambda>(s, t, v).
           if T = s \<and> T = i \<and> t > a \<and> t < b then [\<lparr>Time = t, Value = v\<rparr>] else [])
         (timeseries_measurement d))) (timeseries d))))"

definition ListTimeseriesMeasurements ::
  "'v DB \<Rightarrow> uuid \<Rightarrow> TimeWindow \<Rightarrow> 'v MeasurementCollection result \<times> 'v DB" where
  "ListTimeseriesMeasurements db timeseriesID tw = (case driver_call db of
      (Some e, db') \<Rightarrow> (Err e, db')
    | (None, db') \<Rightarrow>
        (Ok \<lparr>mc_TimeseriesID = timeseriesID,
             mc_Items = select_measurements (data db') timeseriesID (After tw) (Before tw)\<rparr>, db'))"

text \<open>All points of a batch, in the order the two loops visit them.\<close>

definition points :: "'v MeasurementCollection list \<Rightarrow> (uuid \<times> time \<times> 'v) list" where
  "points mc = concat (map (\<lambda>c. map (\<lambda>m. (mc_TimeseriesID c, Time m, Value m)) (mc_Items c)) mc)"

definition upsert_all :: "(uuid \<times> time \<times> 'v) list \<Rightarrow> (uuid \<times> time \<times> 'v) list \<Rightarrow> (uuid \<times> time \<times> 'v) list" where
  "upsert_all ps rows = fold (\<lambda>(s, t, v). upsert s t v) ps rows"

definition row_key :: "uuid \<times> time \<times> 'v \<Rightarrow> uuid \<times> time" where
  "row_key r = (fst r, fst (snd r))"

section \<open>Single-entity getters\<close>

text \<open>
  \<^verbatim>\<open>ProjectFactory\<close> and \<^verbatim>\<open>PlotConfigFactory\<close> are the same loop: \<^verbatim>\<open>rows.Scan\<close> each row
  and append it; a failing scan returns an empty slice together with the error. A scan
  can fail (a conversion error); it counts as a call to the driver.
  The first argument is the slice \<^verbatim>\<open>pp\<close> built so far.
\<close>

fun rows_factory :: "'v DB \<Rightarrow> 'r list \<Rightarrow> 'r list \<Rightarrow> ('r list \<times> error option) \<times> 'v DB" where
  "rows_factory db pp [] = ((pp, None), db)"
| "rows_factory db pp (r # rows) = (case driver_call db of
      (Some e, db') \<Rightarrow> (([], Some e), db')
    | (None, db') \<Rightarrow> rows_factory db' (pp @ [r]) rows)"

definition ProjectFactory :: "'v DB \<Rightarrow> Project list \<Rightarrow> (Project list \<times> error option) \<times> 'v DB" where
  "ProjectFactory db rows = rows_factory db [] rows"

definition PlotConfigFactory ::
  "'v DB \<Rightarrow> PlotConfiguration list \<Rightarrow> (PlotConfiguration list \<times> error option) \<times> 'v DB" where
  "PlotConfigFactory db rows = rows_factory db [] rows"

text \<open>
  \<^verbatim>\<open>db.Queryx\<close>: a driver call that answers with the rows the query selects from the
  committed data.
\<close>

definition Queryx :: "'v DB \<Rightarrow> ('v database \<Rightarrow> 'r list) \<Rightarrow> (error + 'r list) \<times> 'v DB" where
  "Queryx db q = (case driver_call db of
      (Some e, db') \<Rightarrow> (Inl e, db')
    | (None, db') \<Rightarrow> (Inr (q (data db')), db'))"

text \<open>\<^verbatim>\<open>GetProject\<close>: the query is \<^verbatim>\<open>listProjectsSQL + " WHERE id = $1"\<close>; then \<^verbatim>\<open>&pp[0]\<close>.\<close>

definition GetProject :: "'v DB \<Rightarrow> uuid \<Rightarrow> Project result \<times> 'v DB" where
  "GetProject db i = (case Queryx db (\<lambda>d. filter (\<lambda>p. p_ID p = i) (v_project d)) of
      (Inl e, db1) \<Rightarrow> (Err e, db1)
    | (Inr rows, db1) \<Rightarrow> (case ProjectFactory db1 rows of
        ((pp, Some e), db2) \<Rightarrow> (Err e, db2)
      | ((pp, None), db2) \<Rightarrow> (case pp of
          [] \<Rightarrow> (Panic ''index out of range [0] with length 0'', db2)
        | p # _ \<Rightarrow> (Ok p, db2))))"

text \<open>
  Modelled from the spec: the view \<^verbatim>\<open>v_plot_configuration\<close>, whose SQL is not among the
  sources. Each plot configuration comes with the identifiers associated to it in
  \<open>plot_configuration_timeseries\<close> (the spec: "timeseries attached to a plot
  configuration").
\<close>

definition v_plot_configuration :: "'v database \<Rightarrow> PlotConfiguration list" where
  "v_plot_configuration d =
     map (\<lambda>p. p\<lparr>pc_TimeseriesID :=
                 map snd (filter (\<lambda>r. fst r = pc_ID p) (plot_configuration_timeseries d))\<rparr>)
       (plot_configuration d)"

text \<open>
  \<^verbatim>\<open>GetPlotConfiguration\<close>: the query is
  \<^verbatim>\<open>ListPlotConfigurationsSQL + " WHERE project_id = $1 AND id = $2"\<close>; the error of the
  factory is assigned and never read; then \<^verbatim>\<open>&pp[0]\<close>.
\<close>

definition GetPlotConfiguration :: "'v DB \<Rightarrow> uuid \<Rightarrow> uuid \<Rightarrow> PlotConfiguration result \<times> 'v DB" where
  "GetPlotConfiguration db projectID plotconfigID =
    (case Queryx db (\<lambda>d. filter (\<lambda>p. pc_ProjectID p = projectID \<and> pc_ID p = plotconfigID)
                            (v_plot_configuration d)) of
      (Inl e, db1) \<Rightarrow> (Err e, db1)
    | (Inr rows, db1) \<Rightarrow> (case PlotConfigFactory db1 rows of
        ((pp, err), db2) \<Rightarrow> (case pp of
          [] \<Rightarrow> (Panic ''index out of range [0] with length 0'', db2)
        | p # _ \<Rightarrow> (Ok p, db2))))"

section \<open>Reconciling the timeseries of a plot configuration\<close>

text \<open>
  \<^verbatim>\<open>sqlx.In(query, pc.ID, pc.TimeseriesID)\<close> expands the slice argument into one bind
  variable per element; the library answers an empty slice with the error
  "empty slice passed to 'in' query". The result stands for \<^verbatim>\<open>args\<close>.
\<close>

definition sqlx_In :: "uuid \<Rightarrow> uuid list \<Rightarrow> error + (uuid \<times> uuid list)" where
  "sqlx_In i ids = (if ids = [] then Inl EmptySliceIn else Inr (i, ids))"

text \<open>
  \<^verbatim>\<open>UPDATE plot_configuration SET name = $3, updater = $4, update_date = $5
  WHERE project_id = $1 AND id = $2\<close>
\<close>

definition update_row :: "PlotConfiguration \<Rightarrow> PlotConfiguration \<Rightarrow> PlotConfiguration" where
  "update_row pc p =
     (if pc_ProjectID p = pc_ProjectID pc \<and> pc_ID p = pc_ID pc
      then p\<lparr>pc_Name := pc_Name pc,
             pc_Audit := (pc_Audit p)\<lparr>Updater := Updater (pc_Audit pc),
                                      UpdateDate := UpdateDate (pc_Audit pc)\<rparr>\<rparr>
      else p)"

definition stmt_Exec_update ::
  "'v DB \<Rightarrow> 'v database \<Rightarrow> PlotConfiguration \<Rightarrow> (error + 'v database) \<times> 'v DB" where
  "stmt_Exec_update db tx pc = (case driver_call db of
      (Some e, db') \<Rightarrow> (Inl e, db')
    | (None, db') \<Rightarrow>
        (Inr (tx\<lparr>plot_configuration := map (update_row pc) (plot_configuration tx)\<rparr>),
         logged UpdatePlotConfig
           (length (filter (\<lambda>p. pc_ProjectID p = pc_ProjectID pc \<and> pc_ID p = pc_ID pc)
              (plot_configuration tx))) db'))"

text \<open>
  \<^verbatim>\<open>DELETE FROM plot_configuration_timeseries
  WHERE plot_configuration_id = ? AND timeseries_id NOT IN (?)\<close>
\<close>

definition deleted_by :: "uuid \<times> uuid list \<Rightarrow> uuid \<times> uuid \<Rightarrow> bool" where
  "deleted_by args r = (fst r = fst args \<and> snd r \<notin> set (snd args))"

definition stmt_Exec_delete ::
  "'v DB \<Rightarrow> 'v database \<Rightarrow> uuid \<times> uuid list \<Rightarrow> (error + 'v database) \<times> 'v DB" where
  "stmt_Exec_delete db tx args = (case driver_call db of
      (Some e, db') \<Rightarrow> (Inl e, db')
    | (None, db') \<Rightarrow>
        (Inr (tx\<lparr>plot_configuration_timeseries :=
                   filter (\<lambda>r. \<not> deleted_by args r) (plot_configuration_timeseries tx)\<rparr>),
         logged DeleteAssociationsNotIn
           (length (filter (deleted_by args) (plot_configuration_timeseries tx))) db'))"

text \<open>
  \<^verbatim>\<open>INSERT INTO plot_configuration_timeseries (plot_configuration_id, timeseries_id)
  VALUES ($1, $2) ON CONFLICT ON CONSTRAINT plot_configuration_unique_timeseries DO NOTHING\<close>
\<close>

definition stmt_Exec_insert ::
  "'v DB \<Rightarrow> 'v database \<Rightarrow> uuid \<Rightarrow> uuid \<Rightarrow> (error + 'v database) \<times> 'v DB" where
  "stmt_Exec_insert db tx i tsid = (case driver_call db of
      (Some e, db') \<Rightarrow> (Inl e, db')
    | (None, db') \<Rightarrow>
        (if (i, tsid) \<in> set (plot_configuration_timeseries tx)
         then (Inr tx, logged InsertAssociation 0 db')
         else (Inr (tx\<lparr>plot_configuration_timeseries :=
                         plot_configuration_timeseries tx @ [(i, tsid)]\<rparr>),
               logged InsertAssociation 1 db')))"

text \<open>The loop \<^verbatim>\<open>for _, tsid := range pc.TimeseriesID\<close>.\<close>

fun exec_inserts ::
  "'v DB \<Rightarrow> 'v database \<Rightarrow> uuid \<Rightarrow> uuid list \<Rightarrow> (error + 'v database) \<times> 'v DB" where
  "exec_inserts db tx i [] = (Inr tx, db)"
| "exec_inserts db tx i (tsid # ids) = (case stmt_Exec_insert db tx i tsid of
      (Inl e, db') \<Rightarrow> (Inl e, db')
    | (Inr tx', db') \<Rightarrow> exec_inserts db' tx' i ids)"

text \<open>
  \<^verbatim>\<open>UpdatePlotConfiguration\<close>. The exits after a failing third \<^verbatim>\<open>Preparex\<close> and after
  a failing \<^verbatim>\<open>Close\<close> return without a rollback and without a commit: the
  transaction's copy is dropped all the same.
\<close>

definition UpdatePlotConfiguration ::
  "'v DB \<Rightarrow> PlotConfiguration \<Rightarrow> PlotConfiguration result \<times> 'v DB" where
  "UpdatePlotConfiguration db pc = (case Begin db of
      (Some e, db1) \<Rightarrow> (Err e, db1)
    | (None, db1) \<Rightarrow> (case Prepare db1 of
        (Some e, db2) \<Rightarrow> (Err e, Rollback db2)
      | (None, db2) \<Rightarrow> (case sqlx_In (pc_ID pc) (pc_TimeseriesID pc) of
          Inl e \<Rightarrow> (Err e, Rollback db2)
        | Inr args \<Rightarrow> (case Prepare db2 of
            (Some e, db3) \<Rightarrow> (Err e, Rollback db3)
          | (None, db3) \<Rightarrow> (case Prepare db3 of
              (Some e, db4) \<Rightarrow> (Err e, db4)
            | (None, db4) \<Rightarrow> (case stmt_Exec_update db4 (data db4) pc of
                (Inl e, db5) \<Rightarrow> (Err e, Rollback db5)
              | (Inr tx1, db5) \<Rightarrow> (case stmt_Exec_delete db5 tx1 args of
                  (Inl e, db6) \<Rightarrow> (Err e, Rollback db6)
                | (Inr tx2, db6) \<Rightarrow> (case exec_inserts db6 tx2 (pc_ID pc) (pc_TimeseriesID pc) of
                    (Inl e, db7) \<Rightarrow> (Err e, Rollback db7)
                  | (Inr tx3, db7) \<Rightarrow> (case stmt_Close db7 of
                      (Some e, db8) \<Rightarrow> (Err e, db8)
                    | (None, db8) \<Rightarrow> (case stmt_Close db8 of
                        (Some e, db9) \<Rightarrow> (Err e, db9)
                      | (None, db9) \<Rightarrow> (case stmt_Close db9 of
                          (Some e, db10) \<Rightarrow> (Err e, db10)
                        | (None, db10) \<Rightarrow> (case Commit db10 tx3 of
                            (Some e, db11) \<Rightarrow> (Err e, Rollback db11)
                          | (None, db11) \<Rightarrow>
                              GetPlotConfiguration db11 (pc_ProjectID pc) (pc_ID pc)))))))))))))"

text \<open>
  What the insert statement does to the association rows, and what the loop does to them
  when every statement goes through.
\<close>

definition insert_do_nothing :: "uuid \<times> uuid \<Rightarrow> (uuid \<times> uuid) list \<Rightarrow> (uuid \<times> uuid) list" where
  "insert_do_nothing r rows = (if r \<in> set rows then rows else rows @ [r])"

definition insert_all :: "uuid \<Rightarrow> uuid list \<Rightarrow> (uuid \<times> uuid) list \<Rightarrow> (uuid \<times> uuid) list" where
  "insert_all i ids rows = fold (\<lambda>tsid. insert_do_nothing (i, tsid)) ids rows"

text \<open>
  A stretch of the statement record in which no statement other than the update of the
  plot configuration itself affected a row: no association was deleted or inserted.
\<close>

definition no_association_written :: "(statement \<times> nat) list \<Rightarrow> bool" where
  "no_association_written l = (\<forall>x \<in> set l. fst x = UpdatePlotConfig \<or> snd x = 0)"

text \<open>The association rows of one plot configuration.\<close>

definition associations :: "'v database \<Rightarrow> uuid \<Rightarrow> (uuid \<times> uuid) list" where
  "associations d i = filter (\<lambda>r. fst r = i) (plot_configuration_timeseries d)"

section \<open>The flexible collection decoder\<close>

text \<open>
  Modelled from the spec: \<^verbatim>\<open>JSONType\<close>, the helper every \<^verbatim>\<open>UnmarshalJSON\<close> switches
  on, is not among the sources. The spec: "inspect the first significant structural
  character. If it opens an array, decode as an ordered sequence of entity objects. If it
  opens an object, decode as one entity [...]. Otherwise (empty, null,
  malformed-leading-token), produce an empty sequence". The callers compare the answer
  with "ARRAY" and "OBJECT" only; the third answer is named here \<open>''UNKNOWN''\<close>.
  Insignificant characters are JSON's whitespace: space, tab, line feed, carriage return.
\<close>

definition json_space :: "char \<Rightarrow> bool" where
  "json_space c = (c = CHR '' '' \<or> c = CHR 0x09 \<or> c = CHR 0x0A \<or> c = CHR 0x0D)"

definition JSONType :: "string \<Rightarrow> string" where
  "JSONType b = (case dropWhile json_space b of
      [] \<Rightarrow> ''UNKNOWN''
    | c # _ \<Rightarrow> if c = CHR ''['' then ''ARRAY'' else if c = CHR ''{'' then ''OBJECT'' else ''UNKNOWN'')"

text \<open>
  \<^verbatim>\<open>UnmarshalJSON\<close> is the same method on \<^verbatim>\<open>TimeseriesMeasurementCollectionCollection\<close>,
  \<^verbatim>\<open>ProjectCollection\<close>, \<^verbatim>\<open>InstrumentGroupCollection\<close> and \<^verbatim>\<open>InstrumentNoteCollection\<close>,
  up to the entity type \<open>'e\<close>. The two uses of the standard library's
  \<^verbatim>\<open>json.Unmarshal\<close> are parameters: \<open>unmarshal_slice\<close> decodes into a slice of
  entities, \<open>unmarshal_entity\<close> into one entity. The result is the error, or the new
  \<^verbatim>\<open>Items\<close>.
\<close>

definition UnmarshalJSON ::
  "(string \<Rightarrow> error + 'e list) \<Rightarrow> (string \<Rightarrow> error + 'e) \<Rightarrow> string \<Rightarrow> error + 'e list" where
  "UnmarshalJSON unmarshal_slice unmarshal_entity b =
    (if JSONType b = ''ARRAY'' then
       (case unmarshal_slice b of Inl err \<Rightarrow> Inl err | Inr items \<Rightarrow> Inr items)
     else if JSONType b = ''OBJECT'' then
       (case unmarshal_entity b of Inl err \<Rightarrow> Inl err | Inr mc \<Rightarrow> Inr [mc])
     else Inr [])"

section \<open>HTTP handlers\<close>

text \<open>The status codes of \<^verbatim>\<open>net/http\<close> the handlers use.\<close>

definition StatusOK :: nat where "StatusOK = 200"
definition StatusCreated :: nat where "StatusCreated = 201"
definition StatusBadRequest :: nat where "StatusBadRequest = 400"
definition StatusInternalServerError :: nat where "StatusInternalServerError = 500"

text \<open>\<^verbatim>\<open>err.Error()\<close>.\<close>

fun Error :: "error \<Rightarrow> string" where
  "Error (DriverError s) = s"
| "Error EmptySliceIn = ''empty slice passed to '' @ [CHR 0x27] @ ''in'' @ [CHR 0x27] @ '' query''"
| "Error (DecodeError s) = s"
| "Error (LibraryError s) = s"

text \<open>
  The entities the handlers build. Of an instrument status the handlers touch the
  identifier only, so its other fields are the extension of the record. The zero value of
  \<^verbatim>\<open>time.Time\<close> is the first instant of year 1.
\<close>

record Profile =
  profile_ID :: uuid

record InstrumentStatus =
  s_ID :: uuid

record InstrumentNote =
  n_ID :: uuid
  n_InstrumentID :: uuid
  n_Title :: string
  n_Body :: string
  n_Time :: time
  n_Audit :: AuditInfo

definition zero_time :: time where
  "zero_time = - 62135596800000000000"

text \<open>
  The functions of package \<^verbatim>\<open>models\<close> the handlers call (the storage layer), with their
  arguments apart from the handle.
\<close>

datatype 'a call =
    models_ListInstrumentStatus uuid
  | models_GetInstrumentStatus uuid
  | models_CreateOrUpdateInstrumentStatus uuid "'a InstrumentStatus_scheme list"
  | models_DeleteInstrumentStatus uuid
  | models_ComputedTimeseries "uuid list" TimeWindow int
  | models_ListAwareParameters
  | models_ListAwarePlatformParameterConfig
  | models_ListInstrumentNotes
  | models_ListInstrumentInstrumentNotes uuid
  | models_GetInstrumentNote uuid
  | models_CreateInstrumentNote "InstrumentNote list"
  | models_UpdateInstrumentNote InstrumentNote
  | models_DeleteInstrumentNote uuid

text \<open>
  What a handler is given: the request (\<^verbatim>\<open>echo.Context\<close>: path parameters, body, and the
  profile the middleware stored under \<^verbatim>\<open>"profile"\<close>, if any), and the functions of other
  packages: \<^verbatim>\<open>uuid.Parse\<close>, \<^verbatim>\<open>uuid.NewRandom\<close> (the answer of its \<open>k\<close>-th call),
  \<^verbatim>\<open>time.Now\<close>, \<^verbatim>\<open>c.Bind\<close> at the three types it is used at, and the storage layer,
  which answers each call with an error or with a value \<open>'j\<close> to serialise.
\<close>

record Context =
  Param :: "string \<Rightarrow> string"
  Body :: string
  Get_profile :: "Profile option"

record ('j, 'a) env =
  uuid_Parse :: "string \<Rightarrow> error + uuid"
  uuid_NewRandom :: "nat \<Rightarrow> error + uuid"
  Now :: time
  Bind_InstrumentStatusCollection :: "string \<Rightarrow> error + 'a InstrumentStatus_scheme list"
  Bind_InstrumentNoteCollection :: "string \<Rightarrow> error + InstrumentNote list"
  Bind_InstrumentNote :: "InstrumentNote \<Rightarrow> string \<Rightarrow> error + InstrumentNote"
  models :: "'a call \<Rightarrow> error + 'j"

text \<open>
  What a handler answers: \<^verbatim>\<open>c.String(code, s)\<close> or \<^verbatim>\<open>c.JSON(code, v)\<close>, where \<open>v\<close> is a
  value of the storage layer, an error, or the empty map. A handler's outcome is its
  response, or a panic, together with the calls it made to the storage layer.
\<close>

datatype 'j payload = String string | JSON 'j | JSON_error error | JSON_empty_map

record 'j Response =
  status :: nat
  body :: "'j payload"

type_synonym ('j, 'a) handled = "'j Response result \<times> 'a call list"

definition c_String :: "nat \<Rightarrow> string \<Rightarrow> 'j Response result" where
  "c_String code s = Ok \<lparr>status = code, body = String s\<rparr>"

definition c_JSON :: "nat \<Rightarrow> 'j payload \<Rightarrow> 'j Response result" where
  "c_JSON code v = Ok \<lparr>status = code, body = v\<rparr>"

subsection \<open>Instrument status\<close>

definition ListInstrumentStatus :: "('j, 'a) env \<Rightarrow> Context \<Rightarrow> ('j, 'a) handled" where
  "ListInstrumentStatus env c = (case uuid_Parse env (Param c ''instrument_id'') of
      Inl err \<Rightarrow> (c_String StatusBadRequest ''Malformed ID'', [])
    | Inr i \<Rightarrow> (case models env (models_ListInstrumentStatus i) of
        Inl err \<Rightarrow> (c_String StatusBadRequest (Error err), [models_ListInstrumentStatus i])
      | Inr ss \<Rightarrow> (c_JSON StatusOK (JSON ss), [models_ListInstrumentStatus i])))"

definition GetInstrumentStatus :: "('j, 'a) env \<Rightarrow> Context \<Rightarrow> ('j, 'a) handled" where
  "GetInstrumentStatus env c = (case uuid_Parse env (Param c ''status_id'') of
      Inl err \<Rightarrow> (c_String StatusBadRequest ''Malformed ID'', [])
    | Inr i \<Rightarrow> (case models env (models_GetInstrumentStatus i) of
        Inl err \<Rightarrow> (c_String StatusBadRequest (Error err), [models_GetInstrumentStatus i])
      | Inr s \<Rightarrow> (c_JSON StatusOK (JSON s), [models_GetInstrumentStatus i])))"

text \<open>The loop \<^verbatim>\<open>for idx := range sc.Items\<close>, which gives each status a fresh identifier.\<close>

fun assign_ids ::
  "(nat \<Rightarrow> error + uuid) \<Rightarrow> nat \<Rightarrow> 'a InstrumentStatus_scheme list
     \<Rightarrow> error + 'a InstrumentStatus_scheme list" where
  "assign_ids rnd k [] = Inr []"
| "assign_ids rnd k (s # ss) = (case rnd k of
      Inl err \<Rightarrow> Inl err
    | Inr i \<Rightarrow> (case assign_ids rnd (Suc k) ss of
        Inl err \<Rightarrow> Inl err
      | Inr ss' \<Rightarrow> Inr (s\<lparr>s_ID := i\<rparr> # ss')))"

definition CreateOrUpdateInstrumentStatus :: "('j, 'a) env \<Rightarrow> Context \<Rightarrow> ('j, 'a) handled" where
  "CreateOrUpdateInstrumentStatus env c = (case uuid_Parse env (Param c ''instrument_id'') of
      Inl err \<Rightarrow> (c_String StatusBadRequest ''Malformed ID'', [])
    | Inr instrumentID \<Rightarrow> (case Bind_InstrumentStatusCollection env (Body c) of
        Inl err \<Rightarrow> (c_JSON StatusBadRequest (JSON_error err), [])
      | Inr items \<Rightarrow> (case assign_ids (uuid_NewRandom env) 0 items of
          Inl err \<Rightarrow> (c_JSON StatusInternalServerError (JSON_error err), [])
        | Inr items' \<Rightarrow>
            (case models env (models_CreateOrUpdateInstrumentStatus instrumentID items') of
              Inl err \<Rightarrow> (c_JSON StatusInternalServerError (JSON_error err),
                           [models_CreateOrUpdateInstrumentStatus instrumentID items'])
            | Inr _ \<Rightarrow> (c_JSON StatusCreated JSON_empty_map,
                         [models_CreateOrUpdateInstrumentStatus instrumentID items'])))))"

definition DeleteInstrumentStatus :: "('j, 'a) env \<Rightarrow> Context \<Rightarrow> ('j, 'a) handled" where
  "DeleteInstrumentStatus env c = (case uuid_Parse env (Param c ''status_id'') of
      Inl err \<Rightarrow> (c_String StatusBadRequest ''Malformed ID'', [])
    | Inr i \<Rightarrow> (case models env (models_DeleteInstrumentStatus i) of
        Inl err \<Rightarrow> (c_JSON StatusInternalServerError (JSON_error err), [models_DeleteInstrumentStatus i])
      | Inr _ \<Rightarrow> (c_JSON StatusOK JSON_empty_map, [models_DeleteInstrumentStatus i])))"

subsection \<open>Computed timeseries and the parameter lists\<close>

text \<open>
  The window is 2020-01-03 to 2021-01-05 (UTC) and the interval one hour, in
  nanoseconds as \<^verbatim>\<open>time.Duration\<close> counts.
\<close>

definition ComputedTimeseries :: "('j, 'a) env \<Rightarrow> Context \<Rightarrow> ('j, 'a) handled" where
  "ComputedTimeseries env c = (case uuid_Parse env ''a7540f69-c41e-43b3-b655-6e44097edb7e'' of
      Inl err \<Rightarrow> (c_String StatusBadRequest (Error err), [])
    | Inr instrumentID \<Rightarrow>
        (let q = models_ComputedTimeseries [instrumentID]
                   \<lparr>After = 1578009600000000000, Before = 1609804800000000000\<rparr> 3600000000000
         in case models env q of
              Inl err \<Rightarrow> (c_String StatusBadRequest (Error err), [q])
            | Inr tt \<Rightarrow> (c_JSON StatusOK (JSON tt), [q])))"

definition ListAwareParameters :: "('j, 'a) env \<Rightarrow> Context \<Rightarrow> ('j, 'a) handled" where
  "ListAwareParameters env c = (case models env models_ListAwareParameters of
      Inl err \<Rightarrow> (c_String StatusInternalServerError (Error err), [models_ListAwareParameters])
    | Inr pp \<Rightarrow> (c_JSON StatusOK (JSON pp), [models_ListAwareParameters]))"

definition ListAwarePlatformParameterConfig :: "('j, 'a) env \<Rightarrow> Context \<Rightarrow> ('j, 'a) handled" where
  "ListAwarePlatformParameterConfig env c =
    (case models env models_ListAwarePlatformParameterConfig of
      Inl err \<Rightarrow> (c_String StatusInternalServerError (Error err),
                   [models_ListAwarePlatformParameterConfig])
    | Inr cc \<Rightarrow> (c_JSON StatusOK (JSON cc), [models_ListAwarePlatformParameterConfig]))"

subsection \<open>Instrument notes\<close>

definition ListInstrumentNotes :: "('j, 'a) env \<Rightarrow> Context \<Rightarrow> ('j, 'a) handled" where
  "ListInstrumentNotes env c = (case models env models_ListInstrumentNotes of
      Inl err \<Rightarrow> (c_JSON StatusInternalServerError (JSON_error err), [models_ListInstrumentNotes])
    | Inr notes \<Rightarrow> (c_JSON StatusOK (JSON notes), [models_ListInstrumentNotes]))"

definition ListInstrumentInstrumentNotes :: "('j, 'a) env \<Rightarrow> Context \<Rightarrow> ('j, 'a) handled" where
  "ListInstrumentInstrumentNotes env c = (case uuid_Parse env (Param c ''instrument_id'') of
      Inl err \<Rightarrow> (c_String StatusBadRequest ''Malformed ID'', [])
    | Inr iID \<Rightarrow> (case models env (models_ListInstrumentInstrumentNotes iID) of
        Inl err \<Rightarrow> (c_JSON StatusInternalServerError (JSON_error err),
                     [models_ListInstrumentInstrumentNotes iID])
      | Inr notes \<Rightarrow> (c_JSON StatusOK (JSON notes), [models_ListInstrumentInstrumentNotes iID])))"

definition GetInstrumentNote :: "('j, 'a) env \<Rightarrow> Context \<Rightarrow> ('j, 'a) handled" where
  "GetInstrumentNote env c = (case uuid_Parse env (Param c ''note_id'') of
      Inl err \<Rightarrow> (c_String StatusBadRequest ''Malformed ID'', [])
    | Inr nID \<Rightarrow> (case models env (models_GetInstrumentNote nID) of
        Inl err \<Rightarrow> (c_JSON StatusInternalServerError (JSON_error err), [models_GetInstrumentNote nID])
      | Inr note \<Rightarrow> (c_JSON StatusOK (JSON note), [models_GetInstrumentNote nID])))"

text \<open>The loop \<^verbatim>\<open>for idx := range nc.Items\<close>, which stamps the creator and the creation time.\<close>

definition stamp_created :: "uuid \<Rightarrow> time \<Rightarrow> InstrumentNote \<Rightarrow> InstrumentNote" where
  "stamp_created pid t n = n\<lparr>n_Audit := (n_Audit n)\<lparr>Creator := pid, CreateDate := t\<rparr>\<rparr>"

definition CreateInstrumentNote :: "('j, 'a) env \<Rightarrow> Context \<Rightarrow> ('j, 'a) handled" where
  "CreateInstrumentNote env c = (case Bind_InstrumentNoteCollection env (Body c) of
      Inl err \<Rightarrow> (c_JSON StatusBadRequest (JSON_error err), [])
    | Inr items \<Rightarrow> (case Get_profile c of
        None \<Rightarrow> (Panic ''interface conversion'', [])
      | Some p \<Rightarrow>
          (let q = models_CreateInstrumentNote (map (stamp_created (profile_ID p) (Now env)) items)
           in case models env q of
                Inl err \<Rightarrow> (c_JSON StatusInternalServerError (JSON_error err), [q])
              | Inr nn \<Rightarrow> (c_JSON StatusCreated (JSON nn), [q]))))"

definition zero_note :: "uuid \<Rightarrow> InstrumentNote" where
  "zero_note i = \<lparr>n_ID = i, n_InstrumentID = 0, n_Title = [], n_Body = [], n_Time = zero_time,
     n_Audit = \<lparr>Creator = 0, CreateDate = zero_time, Updater = None, UpdateDate = None\<rparr>\<rparr>"

definition UpdateInstrumentNote :: "('j, 'a) env \<Rightarrow> Context \<Rightarrow> ('j, 'a) handled" where
  "UpdateInstrumentNote env c = (case uuid_Parse env (Param c ''note_id'') of
      Inl err \<Rightarrow> (c_JSON StatusBadRequest (JSON_error err), [])
    | Inr noteID \<Rightarrow> (case Bind_InstrumentNote env (zero_note noteID) (Body c) of
        Inl err \<Rightarrow> (c_JSON StatusBadRequest (JSON_error err), [])
      | Inr n \<Rightarrow>
          (if noteID \<noteq> n_ID n
           then (c_String StatusBadRequest ''url note_id does not match object id in body'', [])
           else (case Get_profile c of
               None \<Rightarrow> (Panic ''interface conversion'', [])
             | Some p \<Rightarrow>
                 (let q = models_UpdateInstrumentNote
                            (n\<lparr>n_Audit := (n_Audit n)\<lparr>Updater := Some (profile_ID p),
                                                       UpdateDate := Some (Now env)\<rparr>\<rparr>)
                  in case models env q of
                       Inl err \<Rightarrow> (c_JSON StatusBadRequest (JSON_error err), [q])
                     | Inr nUpdated \<Rightarrow> (c_JSON StatusOK (JSON nUpdated), [q]))))))"

definition DeleteInstrumentNote :: "('j, 'a) env \<Rightarrow> Context \<Rightarrow> ('j, 'a) handled" where
  "DeleteInstrumentNote env c = (case uuid_Parse env (Param c ''note_id'') of
      Inl err \<Rightarrow> (c_JSON StatusBadRequest (JSON_error err), [])
    | Inr noteID \<Rightarrow> (case models env (models_DeleteInstrumentNote noteID) of
        Inl err \<Rightarrow> (c_JSON StatusInternalServerError (JSON_error err),
                     [models_DeleteInstrumentNote noteID])
      | Inr _ \<Rightarrow> (c_JSON StatusOK JSON_empty_map, [models_DeleteInstrumentNote noteID])))"

text \<open>
  The router, which is not among the sources, wires each route to one handler. A route is
  named here by the handler it leads to.
\<close>

datatype route =
    route_ListInstrumentStatus
  | route_GetInstrumentStatus
  | route_CreateOrUpdateInstrumentStatus
  | route_DeleteInstrumentStatus
  | route_ComputedTimeseries
  | route_ListAwareParameters
  | route_ListAwarePlatformParameterConfig
  | route_ListInstrumentNotes
  | route_ListInstrumentInstrumentNotes
  | route_GetInstrumentNote
  | route_CreateInstrumentNote
  | route_UpdateInstrumentNote
  | route_DeleteInstrumentNote

fun handler :: "route \<Rightarrow> ('j, 'a) env \<Rightarrow> Context \<Rightarrow> ('j, 'a) handled" where
  "handler route_ListInstrumentStatus = ListInstrumentStatus"
| "handler route_GetInstrumentStatus = GetInstrumentStatus"
| "handler route_CreateOrUpdateInstrumentStatus = CreateOrUpdateInstrumentStatus"
| "handler route_DeleteInstrumentStatus = DeleteInstrumentStatus"
| "handler route_ComputedTimeseries = ComputedTimeseries"
| "handler route_ListAwareParameters = ListAwareParameters"
| "handler route_ListAwarePlatformParameterConfig = ListAwarePlatformParameterConfig"
| "handler route_ListInstrumentNotes = ListInstrumentNotes"
| "handler route_ListInstrumentInstrumentNotes = ListInstrumentInstrumentNotes"
| "handler route_GetInstrumentNote = GetInstrumentNote"
| "handler route_CreateInstrumentNote = CreateInstrumentNote"
| "handler route_UpdateInstrumentNote = UpdateInstrumentNote"
| "handler route_DeleteInstrumentNote = DeleteInstrumentNote"

section \<open>Concrete stores and requests\<close>

text \<open>
  A small store for the examples: one project, one plot configuration with two
  associated timeseries, and the series \<open>7\<close> with the measurements 10:00 \<open>\<mapsto>\<close> 1.0 and
  11:00 \<open>\<mapsto>\<close> 2.0 (times of day in seconds). The handle is given the driver's answers.
\<close>

definition example_audit :: AuditInfo where
  "example_audit = \<lparr>Creator = 1, CreateDate = 0, Updater = None, UpdateDate = None\<rparr>"

definition example_plot :: PlotConfiguration where
  "example_plot = \<lparr>pc_ID = 5, pc_Name = ''plot'', pc_Slug = ''plot'', pc_ProjectID = 2,
     pc_TimeseriesID = [], pc_Audit = example_audit\<rparr>"

definition example_project :: Project where
  "example_project = \<lparr>p_ID = 2, p_FederalID = None, p_OfficeID = None, p_Image = None,
     p_Deleted = False, p_Slug = ''project'', p_Name = ''project'', p_Timeseries = [],
     p_InstrumentCount = 0, p_InstrumentGroupCount = 0, p_Audit = example_audit\<rparr>"

definition example_data :: "real database" where
  "example_data = \<lparr>timeseries = [7, 8],
     timeseries_measurement = [(7, 36000, 1), (7, 39600, 2)],
     plot_configuration = [example_plot],
     plot_configuration_timeseries = [(5, 7), (5, 8)],
     v_project = [example_project]\<rparr>"

definition example_db :: "(nat \<Rightarrow> error option) \<Rightarrow> real DB" where
  "example_db f = \<lparr>data = example_data, faults = f, calls = 0, exec_log = []\<rparr>"

definition example_batch :: "real MeasurementCollection list" where
  "example_batch = [\<lparr>mc_TimeseriesID = 7,
     mc_Items = [\<lparr>Time = 39600, Value = 3\<rparr>, \<lparr>Time = 43200, Value = 4\<rparr>]\<rparr>]"

text \<open>
  A request with a profile, and an environment in which \<^verbatim>\<open>uuid.Parse\<close> rejects the
  string \<^verbatim>\<open>bad\<close> only, every body binds to no item, and the storage layer is given.
\<close>

definition example_context :: "string \<Rightarrow> Context" where
  "example_context s = \<lparr>Param = (\<lambda>name. s), Body = [], Get_profile = Some \<lparr>profile_ID = 1\<rparr>\<rparr>"

definition example_env :: "(unit call \<Rightarrow> error + nat) \<Rightarrow> (nat, unit) env" where
  "example_env m = \<lparr>
     uuid_Parse = (\<lambda>s. if s = ''bad'' then Inl (LibraryError ''invalid UUID length: 3'') else Inr 1),
     uuid_NewRandom = (\<lambda>k. Inr 2), Now = 0,
     Bind_InstrumentStatusCollection = (\<lambda>b. Inr []),
     Bind_InstrumentNoteCollection = (\<lambda>b. Inr []),
     Bind_InstrumentNote = (\<lambda>n b. Inr n),
     models = m\<rparr>"

section \<open>Properties of the measurement writer and reader\<close>

lemma driver_call_data: "driver_call db = (r, db') \<Longrightarrow> data db' = data db"
  by (auto simp: driver_call_def)

lemma Rollback_data: "data (Rollback db) = data db"
  by (cases "driver_call db") (simp add: Rollback_def driver_call_data)

lemma stmt_Exec_upsert_data: "stmt_Exec_upsert db tx s t v = (r, db') \<Longrightarrow> data db' = data db"
  by (auto simp: stmt_Exec_upsert_def logged_def split: prod.splits option.splits dest: driver_call_data)

lemma exec_items_data: "exec_items db tx s ms = (r, db') \<Longrightarrow> data db' = data db"
proof (induction ms arbitrary: db tx)
  case Nil
  then show ?case by simp
next
  case (Cons m ms)
  then show ?case
    by (auto split: prod.splits sum.splits dest: stmt_Exec_upsert_data)
qed

lemma exec_collections_data: "exec_collections db tx cs = (r, db') \<Longrightarrow> data db' = data db"
proof (induction cs arbitrary: db tx)
  case Nil
  then show ?case by simp
next
  case (Cons c cs)
  then show ?case
    by (auto split: prod.splits sum.splits dest: exec_items_data)
qed

lemma Commit_fail_data: "Commit db tx = (Some e, db') \<Longrightarrow> data db' = data db"
  by (auto simp: Commit_def split: prod.splits option.splits dest: driver_call_data)

lemma Commit_ok_data: "Commit db tx = (None, db') \<Longrightarrow> data db' = tx"
  by (auto simp: Commit_def split: prod.splits option.splits)

lemma create_err_data:
  "CreateOrUpdateTimeseriesMeasurements db mc = (Err e, db') \<Longrightarrow> data db' = data db"
  unfolding CreateOrUpdateTimeseriesMeasurements_def Begin_def Prepare_def stmt_Close_def
  by (auto split: prod.splits option.splits sum.splits simp: Rollback_data)
     (metis driver_call_data exec_collections_data Commit_fail_data)+

lemma create_ok_echo:
  "CreateOrUpdateTimeseriesMeasurements db mc = (Ok r, db') \<Longrightarrow> r = mc"
  unfolding CreateOrUpdateTimeseriesMeasurements_def
  by (auto split: prod.splits option.splits sum.splits)

lemma upsert_all_Nil [simp]: "upsert_all [] rows = rows"
  by (simp add: upsert_all_def)

lemma upsert_all_Cons [simp]: "upsert_all ((s, t, v) # ps) rows = upsert_all ps (upsert s t v rows)"
  by (simp add: upsert_all_def)

lemma upsert_all_append [simp]: "upsert_all (ps @ qs) rows = upsert_all qs (upsert_all ps rows)"
  by (simp add: upsert_all_def)

lemma exec_items_result:
  "exec_items db tx s ms = (Inr tx', db') \<Longrightarrow>
   tx' = tx\<lparr>timeseries_measurement :=
            upsert_all (map (\<lambda>m. (s, Time m, Value m)) ms) (timeseries_measurement tx)\<rparr>"
proof (induction ms arbitrary: db tx)
  case Nil
  then show ?case by simp
next
  case (Cons m ms)
  from Cons.prems show ?case
    by (auto simp: stmt_Exec_upsert_def split: prod.splits sum.splits option.splits dest!: Cons.IH)
qed

lemma points_Nil [simp]: "points [] = []"
  by (simp add: points_def)

lemma points_Cons [simp]:
  "points (c # cs) = map (\<lambda>m. (mc_TimeseriesID c, Time m, Value m)) (mc_Items c) @ points cs"
  by (simp add: points_def)

lemma exec_collections_result:
  "exec_collections db tx cs = (Inr tx', db') \<Longrightarrow>
   tx' = tx\<lparr>timeseries_measurement := upsert_all (points cs) (timeseries_measurement tx)\<rparr>"
proof (induction cs arbitrary: db tx)
  case Nil
  then show ?case by simp
next
  case (Cons c cs)
  from Cons.prems show ?case
    by (auto split: prod.splits sum.splits dest!: exec_items_result Cons.IH)
qed

lemma create_ok_data:
  "CreateOrUpdateTimeseriesMeasurements db mc = (Ok r, db') \<Longrightarrow>
   data db' = (data db)\<lparr>timeseries_measurement :=
                 upsert_all (points mc) (timeseries_measurement (data db))\<rparr>"
  unfolding CreateOrUpdateTimeseriesMeasurements_def Begin_def Prepare_def stmt_Close_def
  apply (auto split: prod.splits option.splits sum.splits)
  apply (frule exec_collections_result)
  apply (drule Commit_ok_data)
  apply (drule driver_call_data)+
  apply simp
  done

lemma exec_upsert_fail:
  "faults db (calls db) = Some e \<Longrightarrow>
   stmt_Exec_upsert db tx s t v = (Inl e, db\<lparr>calls := Suc (calls db)\<rparr>)"
  by (simp add: stmt_Exec_upsert_def driver_call_def)

lemma exec_upsert_ok:
  "faults db (calls db) = None \<Longrightarrow>
   stmt_Exec_upsert db tx s t v =
     (Inr (tx\<lparr>timeseries_measurement := upsert s t v (timeseries_measurement tx)\<rparr>),
      db\<lparr>calls := Suc (calls db), exec_log := exec_log db @ [(UpsertMeasurement, 1)]\<rparr>)"
  by (simp add: stmt_Exec_upsert_def driver_call_def logged_def)

lemma exec_items_fail:
  "\<forall>i<j. faults db (calls db + i) = None \<Longrightarrow> faults db (calls db + j) = Some e \<Longrightarrow>
   j < length ms \<Longrightarrow>
   exec_items db tx s ms =
     (Inl e, db\<lparr>calls := calls db + Suc j,
               exec_log := exec_log db @ replicate j (UpsertMeasurement, 1)\<rparr>)"
proof (induction ms arbitrary: db tx j)
  case Nil
  then show ?case by simp
next
  case (Cons m ms)
  show ?case
  proof (cases j)
    case 0
    with Cons.prems show ?thesis by (simp add: exec_upsert_fail)
  next
    case (Suc k)
    let ?db = "db\<lparr>calls := Suc (calls db), exec_log := exec_log db @ [(UpsertMeasurement, 1)]\<rparr>"
    from Cons.prems Suc have 0: "faults db (calls db) = None" by auto
    from Cons.prems Suc have 1: "\<forall>i<k. faults ?db (calls ?db + i) = None" by auto
    from Cons.prems Suc have 2: "faults ?db (calls ?db + k) = Some e" by simp
    from Cons.prems Suc have 3: "k < length ms" by simp
    show ?thesis using Cons.IH[OF 1 2 3] Suc
      by (simp add: exec_upsert_ok[OF 0] replicate_app_Cons_same)
  qed
qed

lemma exec_items_ok:
  "\<forall>i<length ms. faults db (calls db + i) = None \<Longrightarrow>
   exec_items db tx s ms =
     (Inr (tx\<lparr>timeseries_measurement :=
              upsert_all (map (\<lambda>m. (s, Time m, Value m)) ms) (timeseries_measurement tx)\<rparr>),
      db\<lparr>calls := calls db + length ms,
         exec_log := exec_log db @ replicate (length ms) (UpsertMeasurement, 1)\<rparr>)"
proof (induction ms arbitrary: db tx)
  case Nil
  then show ?case by simp
next
  case (Cons m ms)
  let ?db = "db\<lparr>calls := Suc (calls db), exec_log := exec_log db @ [(UpsertMeasurement, 1)]\<rparr>"
  from Cons.prems have 0: "faults db (calls db) = None" by auto
  from Cons.prems have 1: "\<forall>i<length ms. faults ?db (calls ?db + i) = None" by auto
  show ?case using Cons.IH[OF 1]
    by (simp add: exec_upsert_ok[OF 0] replicate_app_Cons_same)
qed

lemma exec_collections_ok:
  "\<forall>i<length (points cs). faults db (calls db + i) = None \<Longrightarrow>
   exec_collections db tx cs =
     (Inr (tx\<lparr>timeseries_measurement := upsert_all (points cs) (timeseries_measurement tx)\<rparr>),
      db\<lparr>calls := calls db + length (points cs),
         exec_log := exec_log db @ replicate (length (points cs)) (UpsertMeasurement, 1)\<rparr>)"
proof (induction cs arbitrary: db tx)
  case Nil
  then show ?case by simp
next
  case (Cons c cs)
  let ?n = "length (mc_Items c)"
  let ?db = "db\<lparr>calls := calls db + ?n,
         exec_log := exec_log db @ replicate ?n (UpsertMeasurement, 1)\<rparr>"
  from Cons.prems have 0: "\<forall>i<?n. faults db (calls db + i) = None" by auto
  have 1: "\<forall>i<length (points cs). faults ?db (calls ?db + i) = None"
  proof (intro allI impI)
    fix i assume "i < length (points cs)"
    then have "?n + i < length (points (c # cs))" by simp
    with Cons.prems have "faults db (calls db + (?n + i)) = None" by blast
    then show "faults ?db (calls ?db + i) = None" by (simp add: add.assoc)
  qed
  show ?case using Cons.IH[OF 1]
    by (simp add: exec_items_ok[OF 0] replicate_add add.assoc)
qed

lemma exec_collections_fail:
  "\<forall>i<j. faults db (calls db + i) = None \<Longrightarrow> faults db (calls db + j) = Some e \<Longrightarrow>
   j < length (points cs) \<Longrightarrow>
   exec_collections db tx cs =
     (Inl e, db\<lparr>calls := calls db + Suc j,
               exec_log := exec_log db @ replicate j (UpsertMeasurement, 1)\<rparr>)"
proof (induction cs arbitrary: db tx j)
  case Nil
  then show ?case by simp
next
  case (Cons c cs)
  let ?n = "length (mc_Items c)"
  show ?case
  proof (cases "j < ?n")
    case True
    from exec_items_fail[OF Cons.prems(1,2) True]
    show ?thesis by simp
  next
    case False
    then obtain k where j: "j = ?n + k" by (metis le_add_diff_inverse not_less)
    let ?db = "db\<lparr>calls := calls db + ?n,
         exec_log := exec_log db @ replicate ?n (UpsertMeasurement, 1)\<rparr>"
    from Cons.prems j have 0: "\<forall>i<?n. faults db (calls db + i) = None" by auto
    have 1: "\<forall>i<k. faults ?db (calls ?db + i) = None"
    proof (intro allI impI)
      fix i assume "i < k"
      then have "?n + i < j" using j by simp
      with Cons.prems have "faults db (calls db + (?n + i)) = None" by blast
      then show "faults ?db (calls ?db + i) = None" by (simp add: add.assoc)
    qed
    from Cons.prems j have 2: "faults ?db (calls ?db + k) = Some e" by (simp add: add.assoc)
    from Cons.prems j have 3: "k < length (points cs)" by simp
    show ?thesis using Cons.IH[OF 1 2 3] j
      by (simp add: exec_items_ok[OF 0] replicate_add add.assoc)
  qed
qed

lemma Rollback_eq: "Rollback db = db\<lparr>calls := Suc (calls db)\<rparr>"
  by (simp add: Rollback_def driver_call_def)

lemma create_point_fails:
  assumes "\<forall>i<j + 2. faults db (calls db + i) = None"
    and "faults db (calls db + (j + 2)) = Some e" and "j < length (points mc)"
  shows "CreateOrUpdateTimeseriesMeasurements db mc =
           (Err e, db\<lparr>calls := calls db + (j + 4),
                      exec_log := exec_log db @ replicate j (UpsertMeasurement, 1)\<rparr>)"
proof -
  let ?db1 = "db\<lparr>calls := Suc (calls db)\<rparr>"
  let ?db2 = "db\<lparr>calls := Suc (Suc (calls db))\<rparr>"
  from assms(1) have "faults db (calls db + 0) = None" by (metis add_2_eq_Suc' zero_less_Suc)
  then have b: "Begin db = (None, ?db1)" by (simp add: Begin_def driver_call_def)
  from assms(1) have "faults db (calls db + 1) = None" by (metis add_2_eq_Suc' One_nat_def Suc_less_eq zero_less_Suc)
  then have p: "Prepare ?db1 = (None, ?db2)" by (simp add: Prepare_def driver_call_def)
  have 1: "\<forall>i<j. faults ?db2 (calls ?db2 + i) = None"
  proof (intro allI impI)
    fix i assume "i < j"
    then have "i + 2 < j + 2" by simp
    with assms(1) have "faults db (calls db + (i + 2)) = None" by blast
    then show "faults ?db2 (calls ?db2 + i) = None" by simp
  qed
  from assms(2) have 2: "faults ?db2 (calls ?db2 + j) = Some e" by simp
  show ?thesis
    by (simp add: CreateOrUpdateTimeseriesMeasurements_def b p
        exec_collections_fail[OF 1 2 assms(3)] Rollback_eq)
qed

lemma create_all_ok:
  assumes "\<forall>i<length (points mc) + 4. faults db (calls db + i) = None"
  shows "CreateOrUpdateTimeseriesMeasurements db mc =
           (Ok mc, db\<lparr>data := (data db)\<lparr>timeseries_measurement :=
                                upsert_all (points mc) (timeseries_measurement (data db))\<rparr>,
                      calls := calls db + (length (points mc) + 4),
                      exec_log := exec_log db @ replicate (length (points mc)) (UpsertMeasurement, 1)\<rparr>)"
proof -
  let ?n = "length (points mc)"
  let ?db1 = "db\<lparr>calls := Suc (calls db)\<rparr>"
  let ?db2 = "db\<lparr>calls := Suc (Suc (calls db))\<rparr>"
  let ?db3 = "?db2\<lparr>calls := calls ?db2 + ?n,
         exec_log := exec_log ?db2 @ replicate ?n (UpsertMeasurement, 1)\<rparr>"
  let ?tx = "(data db)\<lparr>timeseries_measurement := upsert_all (points mc) (timeseries_measurement (data db))\<rparr>"
  have f: "\<And>i. i < ?n + 4 \<Longrightarrow> faults db (calls db + i) = None" using assms by blast
  from f[of 0] have b: "Begin db = (None, ?db1)" by (simp add: Begin_def driver_call_def)
  from f[of 1] have p: "Prepare ?db1 = (None, ?db2)" by (simp add: Prepare_def driver_call_def)
  have 1: "\<forall>i<?n. faults ?db2 (calls ?db2 + i) = None"
    using f[of "_ + 2"] by simp
  have x: "exec_collections ?db2 (data ?db2) mc = (Inr ?tx, ?db3)"
    using exec_collections_ok[OF 1, of "data ?db2"] by simp
  from f[of "?n + 2"] have c: "stmt_Close ?db3 = (None, ?db3\<lparr>calls := Suc (calls ?db3)\<rparr>)"
    by (simp add: stmt_Close_def driver_call_def)
  from f[of "?n + 3"] have m: "Commit (?db3\<lparr>calls := Suc (calls ?db3)\<rparr>) ?tx =
     (None, ?db3\<lparr>calls := Suc (Suc (calls ?db3)), data := ?tx\<rparr>)"
    by (simp add: Commit_def driver_call_def numeral_3_eq_3)
  show ?thesis
    by (simp only: CreateOrUpdateTimeseriesMeasurements_def b p x c m
          prod.case option.case sum.case) simp
qed

lemma row_key_simp [simp]: "row_key (s, t, v) = (s, t)"
  by (simp add: row_key_def)

lemma upsert_keys:
  "map row_key (upsert s t v rs) =
     (if (s, t) \<in> set (map row_key rs) then map row_key rs else map row_key rs @ [(s, t)])"
proof (induction s t v rs rule: upsert.induct)
  case (1 s t v)
  then show ?case by simp
next
  case (2 s t v s' t' v' rs)
  have "\<And>x. (s, t, x) \<in> set rs \<Longrightarrow> (s, t) \<in> row_key ` set rs"
    by (metis row_key_simp image_eqI)
  with 2 show ?case by auto
qed

lemma upsert_distinct:
  "distinct (map row_key rs) \<Longrightarrow> distinct (map row_key (upsert s t v rs))"
  by (simp add: upsert_keys)

lemma upsert_all_distinct:
  "distinct (map row_key rs) \<Longrightarrow> distinct (map row_key (upsert_all ps rs))"
proof (induction ps arbitrary: rs)
  case Nil
  then show ?case by simp
next
  case (Cons p ps)
  then show ?case by (cases p) (simp add: upsert_distinct)
qed

lemma filter_absent: "k \<notin> set (map row_key rs) \<Longrightarrow> filter (\<lambda>r. row_key r = k) rs = []"
  by (induction rs) auto

lemma upsert_own_key:
  "distinct (map row_key rs) \<Longrightarrow> filter (\<lambda>r. row_key r = (s, t)) (upsert s t v rs) = [(s, t, v)]"
proof (induction rs)
  case Nil
  then show ?case by simp
next
  case (Cons r rs)
  obtain s' t' v' where r: "r = (s', t', v')" by (cases r)
  show ?case
  proof (cases "s' = s \<and> t' = t")
    case True
    with Cons.prems r have "(s, t) \<notin> set (map row_key rs)" by simp
    then have "filter (\<lambda>r. row_key r = (s, t)) rs = []" by (rule filter_absent)
    with True r show ?thesis by simp
  next
    case False
    with Cons r show ?thesis by auto
  qed
qed

lemma upsert_other_key:
  "k \<noteq> (s, t) \<Longrightarrow> filter (\<lambda>r. row_key r = k) (upsert s t v rs) = filter (\<lambda>r. row_key r = k) rs"
  by (induction s t v rs rule: upsert.induct) auto

lemma upsert_all_other_keys:
  "k \<notin> row_key ` set ps \<Longrightarrow>
   filter (\<lambda>r. row_key r = k) (upsert_all ps rs) = filter (\<lambda>r. row_key r = k) rs"
proof (induction ps arbitrary: rs)
  case Nil
  then show ?case by simp
next
  case (Cons p ps)
  obtain s t v where p: "p = (s, t, v)" by (cases p)
  with Cons.prems have "k \<noteq> (s, t)" "k \<notin> row_key ` set ps" by auto
  with Cons.IH p show ?case by (simp add: upsert_other_key)
qed

lemma upsert_all_last_write:
  assumes "distinct (map row_key rs)" and "ps = xs @ (s, t, v) # ys" and "(s, t) \<notin> row_key ` set ys"
  shows "filter (\<lambda>r. row_key r = (s, t)) (upsert_all ps rs) = [(s, t, v)]"
proof -
  have "distinct (map row_key (upsert_all xs rs))" using assms(1) by (rule upsert_all_distinct)
  then have "filter (\<lambda>r. row_key r = (s, t)) (upsert s t v (upsert_all xs rs)) = [(s, t, v)]"
    by (rule upsert_own_key)
  with assms(2,3) show ?thesis by (simp add: upsert_all_other_keys)
qed

lemma create_ok_rows:
  "CreateOrUpdateTimeseriesMeasurements db mc = (Ok r, db') \<Longrightarrow>
   timeseries_measurement (data db') = upsert_all (points mc) (timeseries_measurement (data db))"
  by (drule create_ok_data) simp

lemma select_mem:
  "m \<in> set (select_measurements d i a b) \<longleftrightarrow>
     (i, Time m, Value m) \<in> set (timeseries_measurement d) \<and>
        i \<in> set (timeseries d) \<and> a < Time m \<and> Time m < b"
proof -
  have "m \<in> set (select_measurements d i a b) \<longleftrightarrow>
     (\<exists>T \<in> set (timeseries d). \<exists>r \<in> set (timeseries_measurement d).
        m \<in> set (case r of (s, t, v) \<Rightarrow>
           if T = s \<and> T = i \<and> t > a \<and> t < b then [\<lparr>Time = t, Value = v\<rparr>] else []))"
    by (simp add: select_measurements_def)
  also have "\<dots> \<longleftrightarrow> (\<exists>T \<in> set (timeseries d). \<exists>r \<in> set (timeseries_measurement d).
       T = fst r \<and> T = i \<and> fst (snd r) > a \<and> fst (snd r) < b \<and>
       m = \<lparr>Time = fst (snd r), Value = snd (snd r)\<rparr>)"
    by (intro bex_cong refl) (auto split: prod.splits)
  also have "\<dots> \<longleftrightarrow> (i, Time m, Value m) \<in> set (timeseries_measurement d) \<and>
        i \<in> set (timeseries d) \<and> a < Time m \<and> Time m < b"
    by (cases m) force
  finally show ?thesis .
qed

lemma select_set:
  "set (select_measurements d i a b) =
     {\<lparr>Time = t, Value = v\<rparr> | t v. (i, t, v) \<in> set (timeseries_measurement d) \<and>
        i \<in> set (timeseries d) \<and> a < t \<and> t < b}"
proof (intro set_eqI iffI)
  fix m assume "m \<in> set (select_measurements d i a b)"
  then have "(i, Time m, Value m) \<in> set (timeseries_measurement d) \<and>
        i \<in> set (timeseries d) \<and> a < Time m \<and> Time m < b" by (simp add: select_mem)
  moreover have "m = \<lparr>Time = Time m, Value = Value m\<rparr>" by simp
  ultimately show "m \<in> {\<lparr>Time = t, Value = v\<rparr> | t v. (i, t, v) \<in> set (timeseries_measurement d) \<and>
        i \<in> set (timeseries d) \<and> a < t \<and> t < b}" by blast
next
  fix m assume "m \<in> {\<lparr>Time = t, Value = v\<rparr> | t v. (i, t, v) \<in> set (timeseries_measurement d) \<and>
        i \<in> set (timeseries d) \<and> a < t \<and> t < b}"
  then show "m \<in> set (select_measurements d i a b)" by (auto simp: select_mem)
qed

lemma select_sorted:
  "sorted_wrt (\<lambda>x y. Time x \<ge> Time y) (select_measurements d i a b)"
proof -
  let ?xs = "concat (map (\<lambda>T. concat (map (\<lambda>(s, t, v).
           if T = s \<and> T = i \<and> t > a \<and> t < b then [\<lparr>Time = t, Value = v\<rparr>] else [])
         (timeseries_measurement d))) (timeseries d))"
  have "sorted (map Time (sort_key Time ?xs))" by (rule sorted_sort_key)
  then have "sorted_wrt (\<lambda>x y. Time x \<le> Time y) (sort_key Time ?xs)" by (simp only: sorted_map)
  then have "sorted_wrt (\<lambda>x y. Time y \<le> Time x) (rev (sort_key Time ?xs))"
    by (simp only: sorted_wrt_rev)
  then show ?thesis by (simp only: select_measurements_def)
qed

lemma select_empty:
  "\<forall>t v. (i, t, v) \<in> set (timeseries_measurement d) \<and> i \<in> set (timeseries d) \<longrightarrow> \<not> (a < t \<and> t < b) \<Longrightarrow>
   select_measurements d i a b = []"
proof (rule ccontr)
  assume h: "\<forall>t v. (i, t, v) \<in> set (timeseries_measurement d) \<and> i \<in> set (timeseries d) \<longrightarrow> \<not> (a < t \<and> t < b)"
  assume "select_measurements d i a b \<noteq> []"
  then obtain m where "m \<in> set (select_measurements d i a b)" by (cases "select_measurements d i a b") auto
  then have "(i, Time m, Value m) \<in> set (timeseries_measurement d) \<and>
        i \<in> set (timeseries d) \<and> a < Time m \<and> Time m < b" by (simp add: select_mem)
  with h show False by blast
qed

lemma upsert_series:
  "filter (\<lambda>r. fst r = S) (upsert s t v rs) =
     (if s = S then upsert s t v (filter (\<lambda>r. fst r = S) rs) else filter (\<lambda>r. fst r = S) rs)"
  by (induction s t v rs rule: upsert.induct) auto

lemma upsert_all_series:
  "\<forall>p \<in> set ps. fst p = S \<Longrightarrow>
   filter (\<lambda>r. fst r = S) (upsert_all ps rs) = upsert_all ps (filter (\<lambda>r. fst r = S) rs)"
proof (induction ps arbitrary: rs)
  case Nil
  then show ?case by simp
next
  case (Cons p ps)
  obtain s t v where p: "p = (s, t, v)" by (cases p)
  with Cons show ?case by (simp add: upsert_series)
qed

text \<open>
  Claim C1. Whenever \<^verbatim>\<open>CreateOrUpdateTimeseriesMeasurements\<close> returns an error, the
  committed data is what it was before the call. In particular, when the transaction
  begins, the statement is prepared, \<open>j\<close> points are written and the write of the next
  point fails with \<open>e\<close>, the call returns \<open>e\<close> itself, nothing is committed, and the
  driver has been called \<open>j + 4\<close> times: to begin, to prepare, for \<open>j + 1\<close> points and
  to roll back. No point is written a second time.
\<close>

theorem batch_failure_aborts:
  "(CreateOrUpdateTimeseriesMeasurements db mc = (Err e, db') \<longrightarrow> data db' = data db) \<and>
   ((\<forall>i<j + 2. faults db (calls db + i) = None) \<and> faults db (calls db + (j + 2)) = Some e \<and>
    j < length (points mc) \<longrightarrow>
      CreateOrUpdateTimeseriesMeasurements db mc =
        (Err e, db\<lparr>calls := calls db + (j + 4),
                   exec_log := exec_log db @ replicate j (UpsertMeasurement, 1)\<rparr>))"
  using create_err_data[of db mc e db'] create_point_fails[of j db e mc] by blast

text \<open>
  The call of C1 on the example store: the second point of the batch fails.
\<close>

theorem batch_failure_aborts_witness:
  "CreateOrUpdateTimeseriesMeasurements
     (example_db (\<lambda>n. if n = 3 then Some (DriverError ''connection lost'') else None)) example_batch =
     (Err (DriverError ''connection lost''),
      (example_db (\<lambda>n. if n = 3 then Some (DriverError ''connection lost'') else None))
        \<lparr>calls := 5, exec_log := [(UpsertMeasurement, 1)]\<rparr>) \<and>
   data ((example_db (\<lambda>n. if n = 3 then Some (DriverError ''connection lost'') else None))
        \<lparr>calls := 5, exec_log := [(UpsertMeasurement, 1)]\<rparr>) = example_data"
proof -
  let ?f = "\<lambda>n::nat. if n = 3 then Some (DriverError ''connection lost'') else None"
  let ?db = "example_db ?f"
  have 1: "\<forall>i<1 + 2. faults ?db (calls ?db + i) = None" by (simp add: example_db_def)
  have 2: "faults ?db (calls ?db + (1 + 2)) = Some (DriverError ''connection lost'')"
    by (simp add: example_db_def)
  have 3: "1 < length (points example_batch)" by (simp add: example_batch_def points_def)
  from batch_failure_aborts[of ?db example_batch "DriverError ''connection lost''" _ 1] 1 2 3
  have "CreateOrUpdateTimeseriesMeasurements ?db example_batch =
        (Err (DriverError ''connection lost''),
         ?db\<lparr>calls := calls ?db + (1 + 4),
             exec_log := exec_log ?db @ replicate 1 (UpsertMeasurement, 1)\<rparr>)" by blast
  then show ?thesis by (simp add: example_db_def)
qed

text \<open>
  Claim C2. On a table that satisfies its uniqueness constraint, after two successful
  calls of which the first writes \<open>v1\<close> at \<open>(S, T)\<close> and the second writes \<open>v2\<close> there
  last, the table has exactly one row for \<open>(S, T)\<close>, and it holds \<open>v2\<close>. And when the
  rows of \<open>S\<close> are 10:00 \<open>\<mapsto>\<close> 1.0 and 11:00 \<open>\<mapsto>\<close> 2.0 (times of day in seconds), a
  successful call with the batch 11:00 \<open>\<mapsto>\<close> 3.0, 12:00 \<open>\<mapsto>\<close> 4.0 for \<open>S\<close> leaves \<open>S\<close>
  with exactly 10:00 \<open>\<mapsto>\<close> 1.0, 11:00 \<open>\<mapsto>\<close> 3.0, 12:00 \<open>\<mapsto>\<close> 4.0.
\<close>

theorem upsert_overwrites:
  "(distinct (map row_key (timeseries_measurement (data db))) \<and>
    CreateOrUpdateTimeseriesMeasurements db mc1 = (Ok r1, db1) \<and>
    CreateOrUpdateTimeseriesMeasurements db1 mc2 = (Ok r2, db2) \<and>
    (S, T, v1) \<in> set (points mc1) \<and>
    points mc2 = xs @ (S, T, v2) # ys \<and> (S, T) \<notin> row_key ` set ys \<longrightarrow>
      filter (\<lambda>r. row_key r = (S, T)) (timeseries_measurement (data db2)) = [(S, T, v2)]) \<and>
   (filter (\<lambda>r. fst r = S) (timeseries_measurement (data db)) = [(S, 36000, 1), (S, 39600, 2)] \<and>
    CreateOrUpdateTimeseriesMeasurements db
      [\<lparr>mc_TimeseriesID = S,
        mc_Items = [\<lparr>Time = 39600, Value = 3\<rparr>, \<lparr>Time = 43200, Value = 4\<rparr>]\<rparr>] = (Ok r, db') \<longrightarrow>
      filter (\<lambda>r. fst r = S) (timeseries_measurement (data db')) =
        [(S, 36000, 1), (S, 39600, 3), (S, 43200, 4::real)])"
proof (intro conjI impI)
  assume a: "distinct (map row_key (timeseries_measurement (data db))) \<and>
    CreateOrUpdateTimeseriesMeasurements db mc1 = (Ok r1, db1) \<and>
    CreateOrUpdateTimeseriesMeasurements db1 mc2 = (Ok r2, db2) \<and>
    (S, T, v1) \<in> set (points mc1) \<and>
    points mc2 = xs @ (S, T, v2) # ys \<and> (S, T) \<notin> row_key ` set ys"
  then have c1: "CreateOrUpdateTimeseriesMeasurements db mc1 = (Ok r1, db1)"
    and c2: "CreateOrUpdateTimeseriesMeasurements db1 mc2 = (Ok r2, db2)" by simp_all
  from a have d: "distinct (map row_key (timeseries_measurement (data db1)))"
    by (simp add: create_ok_rows[OF c1] upsert_all_distinct)
  from a have p: "points mc2 = xs @ (S, T, v2) # ys" and k: "(S, T) \<notin> row_key ` set ys"
    by simp_all
  have e: "timeseries_measurement (data db2) =
      upsert_all (points mc2) (timeseries_measurement (data db1))" by (rule create_ok_rows[OF c2])
  show "filter (\<lambda>r. row_key r = (S, T)) (timeseries_measurement (data db2)) = [(S, T, v2)]"
    unfolding e by (rule upsert_all_last_write[OF d p k])
next
  let ?mc = "[\<lparr>mc_TimeseriesID = S,
        mc_Items = [\<lparr>Time = 39600, Value = 3\<rparr>, \<lparr>Time = 43200, Value = 4::real\<rparr>]\<rparr>]"
  assume a: "filter (\<lambda>r. fst r = S) (timeseries_measurement (data db)) = [(S, 36000, 1), (S, 39600, 2)] \<and>
    CreateOrUpdateTimeseriesMeasurements db ?mc = (Ok r, db')"
  then have c: "CreateOrUpdateTimeseriesMeasurements db ?mc = (Ok r, db')" by simp
  have "timeseries_measurement (data db') =
      upsert_all (points ?mc) (timeseries_measurement (data db))" by (rule create_ok_rows[OF c])
  moreover have "\<forall>p \<in> set (points ?mc). fst p = S" by simp
  ultimately have "filter (\<lambda>r. fst r = S) (timeseries_measurement (data db')) =
      upsert_all (points ?mc) (filter (\<lambda>r. fst r = S) (timeseries_measurement (data db)))"
    by (simp only: upsert_all_series)
  with a show "filter (\<lambda>r. fst r = S) (timeseries_measurement (data db')) =
        [(S, 36000, 1), (S, 39600, 3), (S, 43200, 4)]" by simp
qed

text \<open>
  Both parts of C2 on the example store.
\<close>

theorem upsert_overwrites_witness:
  "filter (\<lambda>r. row_key r = (7, 39600))
     (timeseries_measurement (data (snd (CreateOrUpdateTimeseriesMeasurements
        (snd (CreateOrUpdateTimeseriesMeasurements (example_db (\<lambda>n. None))
           [\<lparr>mc_TimeseriesID = 7, mc_Items = [\<lparr>Time = 39600, Value = 3\<rparr>]\<rparr>]))
        [\<lparr>mc_TimeseriesID = 7, mc_Items = [\<lparr>Time = 39600, Value = 5\<rparr>]\<rparr>])))) = [(7, 39600, 5)] \<and>
   filter (\<lambda>r. fst r = 7)
     (timeseries_measurement (data (snd (CreateOrUpdateTimeseriesMeasurements
        (example_db (\<lambda>n. None)) example_batch)))) = [(7, 36000, 1), (7, 39600, 3), (7, 43200, 4)]"
proof -
  let ?db = "example_db (\<lambda>n. None)"
  let ?mc1 = "[\<lparr>mc_TimeseriesID = 7, mc_Items = [\<lparr>Time = 39600, Value = 3::real\<rparr>]\<rparr>]"
  let ?mc2 = "[\<lparr>mc_TimeseriesID = 7, mc_Items = [\<lparr>Time = 39600, Value = 5::real\<rparr>]\<rparr>]"
  let ?db1 = "snd (CreateOrUpdateTimeseriesMeasurements ?db ?mc1)"
  let ?db2 = "snd (CreateOrUpdateTimeseriesMeasurements ?db1 ?mc2)"
  let ?db3 = "snd (CreateOrUpdateTimeseriesMeasurements ?db example_batch)"
  have d: "distinct (map row_key (timeseries_measurement (data ?db)))"
    by (simp add: example_db_def example_data_def)
  have c1: "CreateOrUpdateTimeseriesMeasurements ?db ?mc1 = (Ok ?mc1, ?db1)"
    by (simp add: create_all_ok example_db_def)
  have f1: "faults ?db1 = (\<lambda>n. None)"
    by (simp add: create_all_ok example_db_def)
  have c2: "CreateOrUpdateTimeseriesMeasurements ?db1 ?mc2 = (Ok ?mc2, ?db2)"
    by (simp add: create_all_ok f1)
  have m: "(7, 39600, 3) \<in> set (points ?mc1)" by simp
  have p: "points ?mc2 = [] @ (7, 39600, 5) # []" by simp
  have k: "(7, 39600) \<notin> row_key ` set ([] :: (uuid \<times> time \<times> real) list)" by simp
  have e: "filter (\<lambda>r. fst r = 7) (timeseries_measurement (data ?db)) = [(7, 36000, 1), (7, 39600, 2)]"
    by (simp add: example_db_def example_data_def)
  have c3: "CreateOrUpdateTimeseriesMeasurements ?db example_batch = (Ok example_batch, ?db3)"
    by (simp add: create_all_ok example_db_def)
  from upsert_overwrites[of ?db ?mc1 ?mc1 ?db1 ?mc2 ?mc2 ?db2 7 39600 3 "[]" 5 "[]" example_batch ?db3]
    d c1 c2 m p k e c3[unfolded example_batch_def]
  show ?thesis unfolding example_batch_def by blast
qed

text \<open>
  Claim C5. A successful \<^verbatim>\<open>ListTimeseriesMeasurements\<close> returns the collection of the
  series asked for; every point of it lies strictly inside the window; the points are in
  descending order of time; they are exactly the rows of the series inside the window; and
  when no row matches, the sequence of points is empty. The call succeeds whenever the
  driver answers the query, whether rows match or not.
\<close>

theorem list_window:
  "(ListTimeseriesMeasurements db i tw = (Ok mc, db') \<longrightarrow>
      mc_TimeseriesID mc = i \<and>
      (\<forall>m \<in> set (mc_Items mc). After tw < Time m \<and> Time m < Before tw) \<and>
      sorted_wrt (\<lambda>x y. Time x \<ge> Time y) (mc_Items mc) \<and>
      set (mc_Items mc) =
        {\<lparr>Time = t, Value = v\<rparr> | t v. (i, t, v) \<in> set (timeseries_measurement (data db)) \<and>
           i \<in> set (timeseries (data db)) \<and> After tw < t \<and> t < Before tw} \<and>
      ((\<forall>t v. (i, t, v) \<in> set (timeseries_measurement (data db)) \<and> i \<in> set (timeseries (data db))
           \<longrightarrow> \<not> (After tw < t \<and> t < Before tw)) \<longrightarrow> mc_Items mc = [])) \<and>
   (faults db (calls db) = None \<longrightarrow>
      (\<exists>mc. ListTimeseriesMeasurements db i tw = (Ok mc, db\<lparr>calls := Suc (calls db)\<rparr>)))"
proof (intro conjI impI)
  assume a: "ListTimeseriesMeasurements db i tw = (Ok mc, db')"
  then have mc: "mc = \<lparr>mc_TimeseriesID = i,
        mc_Items = select_measurements (data db) i (After tw) (Before tw)\<rparr>"
    by (auto simp: ListTimeseriesMeasurements_def driver_call_def split: option.splits)
  show "mc_TimeseriesID mc = i" by (simp add: mc)
  show "\<forall>m \<in> set (mc_Items mc). After tw < Time m \<and> Time m < Before tw"
    by (simp add: mc select_mem)
  show "sorted_wrt (\<lambda>x y. Time x \<ge> Time y) (mc_Items mc)"
    by (simp add: mc select_sorted)
  show "set (mc_Items mc) =
        {\<lparr>Time = t, Value = v\<rparr> | t v. (i, t, v) \<in> set (timeseries_measurement (data db)) \<and>
           i \<in> set (timeseries (data db)) \<and> After tw < t \<and> t < Before tw}"
    by (simp add: mc select_set)
  assume "\<forall>t v. (i, t, v) \<in> set (timeseries_measurement (data db)) \<and> i \<in> set (timeseries (data db))
           \<longrightarrow> \<not> (After tw < t \<and> t < Before tw)"
  then show "mc_Items mc = []" by (simp add: mc select_empty)
next
  assume "faults db (calls db) = None"
  then show "\<exists>mc. ListTimeseriesMeasurements db i tw = (Ok mc, db\<lparr>calls := Suc (calls db)\<rparr>)"
    by (simp add: ListTimeseriesMeasurements_def driver_call_def)
qed

text \<open>
  The reader on the example store: a window with one point in it, and a series without rows.
\<close>

theorem list_window_witness:
  "ListTimeseriesMeasurements (example_db (\<lambda>n. None)) 7 \<lparr>After = 36000, Before = 43200\<rparr> =
     (Ok \<lparr>mc_TimeseriesID = 7, mc_Items = [\<lparr>Time = 39600, Value = 2\<rparr>]\<rparr>,
      (example_db (\<lambda>n. None))\<lparr>calls := 1\<rparr>) \<and>
   36000 < Time \<lparr>Time = 39600, Value = 2::real\<rparr> \<and>
   Time \<lparr>Time = 39600, Value = 2::real\<rparr> < 43200 \<and>
   (\<exists>mc. ListTimeseriesMeasurements (example_db (\<lambda>n. None)) 9 \<lparr>After = 36000, Before = 43200\<rparr> =
     (Ok mc, (example_db (\<lambda>n. None))\<lparr>calls := 1\<rparr>) \<and> mc_Items mc = [])"
proof -
  let ?db = "example_db (\<lambda>n. None)"
  let ?tw = "\<lparr>After = 36000, Before = 43200\<rparr>"
  let ?mc = "\<lparr>mc_TimeseriesID = 7, mc_Items = [\<lparr>Time = 39600, Value = 2::real\<rparr>]\<rparr>"
  have 1: "ListTimeseriesMeasurements ?db 7 ?tw = (Ok ?mc, ?db\<lparr>calls := 1\<rparr>)"
    by (simp add: ListTimeseriesMeasurements_def driver_call_def select_measurements_def
        example_db_def example_data_def)
  have 2: "faults ?db (calls ?db) = None" by (simp add: example_db_def)
  have 3: "\<forall>t v. (9, t, v) \<in> set (timeseries_measurement (data ?db)) \<and> 9 \<in> set (timeseries (data ?db))
           \<longrightarrow> \<not> (After ?tw < t \<and> t < Before ?tw)"
    by (simp add: example_db_def example_data_def)
  from list_window[of ?db 7 ?tw ?mc "?db\<lparr>calls := 1\<rparr>"] 1
  have "\<forall>m \<in> set (mc_Items ?mc). After ?tw < Time m \<and> Time m < Before ?tw" by blast
  then have a: "36000 < Time \<lparr>Time = 39600, Value = 2::real\<rparr> \<and>
      Time \<lparr>Time = 39600, Value = 2::real\<rparr> < 43200"
    by simp
  from list_window[of ?db 9 ?tw] 2
  obtain mc where b: "ListTimeseriesMeasurements ?db 9 ?tw = (Ok mc, ?db\<lparr>calls := Suc (calls ?db)\<rparr>)"
    by blast
  with list_window[of ?db 9 ?tw mc "?db\<lparr>calls := Suc (calls ?db)\<rparr>"] 3
  have "mc_Items mc = []" by blast
  with b have "\<exists>mc. ListTimeseriesMeasurements ?db 9 ?tw = (Ok mc, ?db\<lparr>calls := 1\<rparr>) \<and> mc_Items mc = []"
    by (auto simp: example_db_def)
  with 1 a show ?thesis by blast
qed

text \<open>
  Claim C8. A successful \<^verbatim>\<open>CreateOrUpdateTimeseriesMeasurements\<close> returns its input.
  It is successful whenever the driver answers the calls it makes (one per point and four
  more); on the empty batch it then returns the empty batch and leaves the data and the
  statement record as they were.
\<close>

theorem batch_success_echoes:
  "(CreateOrUpdateTimeseriesMeasurements db mc = (Ok r, db') \<longrightarrow> r = mc) \<and>
   ((\<forall>i<length (points mc) + 4. faults db (calls db + i) = None) \<longrightarrow>
      fst (CreateOrUpdateTimeseriesMeasurements db mc) = Ok mc) \<and>
   ((\<forall>i<4. faults db (calls db + i) = None) \<longrightarrow>
      CreateOrUpdateTimeseriesMeasurements db [] = (Ok [], db\<lparr>calls := calls db + 4\<rparr>))"
proof (intro conjI impI)
  assume "CreateOrUpdateTimeseriesMeasurements db mc = (Ok r, db')"
  then show "r = mc" by (rule create_ok_echo)
next
  assume "\<forall>i<length (points mc) + 4. faults db (calls db + i) = None"
  then show "fst (CreateOrUpdateTimeseriesMeasurements db mc) = Ok mc"
    by (simp add: create_all_ok)
next
  assume "\<forall>i<4. faults db (calls db + i) = None"
  then have "\<forall>i<length (points ([] :: 'a MeasurementCollection list)) + 4. faults db (calls db + i) = None"
    by simp
  from create_all_ok[OF this] show
    "CreateOrUpdateTimeseriesMeasurements db [] = (Ok [], db\<lparr>calls := calls db + 4\<rparr>)"
    by simp
qed

text \<open>
  The writer on the example store, with the example batch and with the empty batch.
\<close>

theorem batch_success_echoes_witness:
  "fst (CreateOrUpdateTimeseriesMeasurements (example_db (\<lambda>n. None)) example_batch) = Ok example_batch \<and>
   CreateOrUpdateTimeseriesMeasurements (example_db (\<lambda>n. None)) [] =
     (Ok [], (example_db (\<lambda>n. None))\<lparr>calls := 4\<rparr>)"
proof -
  let ?db = "example_db (\<lambda>n. None)"
  have 1: "\<forall>i<length (points example_batch) + 4. faults ?db (calls ?db + i) = None"
    by (simp add: example_db_def)
  have 2: "\<forall>i<4. faults ?db (calls ?db + i) = None" by (simp add: example_db_def)
  from batch_success_echoes[of ?db example_batch] 1 2
  have "fst (CreateOrUpdateTimeseriesMeasurements ?db example_batch) = Ok example_batch"
    and "CreateOrUpdateTimeseriesMeasurements ?db [] = (Ok [], ?db\<lparr>calls := calls ?db + 4\<rparr>)"
    by blast+
  then show ?thesis by (simp add: example_db_def)
qed

section \<open>Properties of the getters and of the reconciliation\<close>

lemma rows_factory_frame:
  "rows_factory db pp rows = (r, db') \<Longrightarrow>
   data db' = data db \<and> exec_log db' = exec_log db \<and> faults db' = faults db"
proof (induction rows arbitrary: db pp)
  case Nil
  then show ?case by auto
next
  case (Cons x rows)
  show ?case
  proof (cases "faults db (calls db)")
    case None
    with Cons.prems have "rows_factory (db\<lparr>calls := Suc (calls db)\<rparr>) (pp @ [x]) rows = (r, db')"
      by (simp add: driver_call_def)
    from Cons.IH[OF this] show ?thesis by simp
  next
    case (Some e)
    with Cons.prems show ?thesis by (auto simp: driver_call_def)
  qed
qed


lemma Queryx_frame:
  "Queryx db q = (r, db') \<Longrightarrow>
   data db' = data db \<and> exec_log db' = exec_log db \<and> faults db' = faults db"
  by (cases "faults db (calls db)") (auto simp: Queryx_def driver_call_def)

lemma GetPlotConfiguration_frame:
  assumes "GetPlotConfiguration db p i = (r, db')"
  shows "data db' = data db \<and> exec_log db' = exec_log db \<and> faults db' = faults db"
proof -
  let ?q = "\<lambda>d. filter (\<lambda>x. pc_ProjectID x = p \<and> pc_ID x = i) (v_plot_configuration d)"
  obtain a db1 where q: "Queryx db ?q = (a, db1)" by (cases "Queryx db ?q")
  note f1 = Queryx_frame[OF q]
  show ?thesis
  proof (cases a)
    case (Inl e)
    with assms q have "db' = db1" by (simp add: GetPlotConfiguration_def)
    with f1 show ?thesis by simp
  next
    case (Inr rows)
    obtain pp err db2 where f: "rows_factory db1 [] rows = ((pp, err), db2)"
      by (cases "rows_factory db1 [] rows") auto
    note f2 = rows_factory_frame[OF f]
    from assms q Inr f have "db' = db2"
      by (simp add: GetPlotConfiguration_def PlotConfigFactory_def split: list.splits)
    with f1 f2 show ?thesis by simp
  qed
qed

lemma stmt_Exec_insert_eq:
  "stmt_Exec_insert db tx i t =
    (case faults db (calls db) of
       Some e \<Rightarrow> (Inl e, db\<lparr>calls := Suc (calls db)\<rparr>)
     | None \<Rightarrow>
        (Inr (tx\<lparr>plot_configuration_timeseries :=
                 insert_do_nothing (i, t) (plot_configuration_timeseries tx)\<rparr>),
         db\<lparr>calls := Suc (calls db),
            exec_log := exec_log db @
              [(InsertAssociation, if (i, t) \<in> set (plot_configuration_timeseries tx) then 0 else 1)]\<rparr>))"
  by (simp add: stmt_Exec_insert_def driver_call_def logged_def insert_do_nothing_def
      split: option.splits)

lemma insert_all_Nil [simp]: "insert_all i [] rows = rows"
  by (simp add: insert_all_def)

lemma insert_all_Cons [simp]:
  "insert_all i (t # ids) rows = insert_all i ids (insert_do_nothing (i, t) rows)"
  by (simp add: insert_all_def)

lemma exec_inserts_Inr:
  "exec_inserts db tx i ids = (Inr tx', db') \<Longrightarrow>
   tx' = tx\<lparr>plot_configuration_timeseries := insert_all i ids (plot_configuration_timeseries tx)\<rparr>"
proof (induction ids arbitrary: db tx)
  case Nil
  then show ?case by simp
next
  case (Cons t ids)
  show ?case
  proof (cases "faults db (calls db)")
    case None
    with Cons.prems show ?thesis
      by (auto simp: stmt_Exec_insert_eq dest!: Cons.IH)
  next
    case (Some e)
    with Cons.prems show ?thesis by (simp add: stmt_Exec_insert_eq)
  qed
qed

lemma exec_inserts_frame:
  "exec_inserts db tx i ids = (r, db') \<Longrightarrow> data db' = data db \<and> faults db' = faults db"
proof (induction ids arbitrary: db tx)
  case Nil
  then show ?case by auto
next
  case (Cons t ids)
  show ?case
  proof (cases "faults db (calls db)")
    case None
    with Cons.prems show ?thesis
      by (auto simp: stmt_Exec_insert_eq dest!: Cons.IH)
  next
    case (Some e)
    with Cons.prems show ?thesis by (auto simp: stmt_Exec_insert_eq)
  qed
qed

lemma set_insert_all: "set (insert_all i ids rows) = set rows \<union> Pair i ` set ids"
  by (induction ids arbitrary: rows) (auto simp: insert_do_nothing_def)

lemma insert_all_present:
  "\<forall>t \<in> set ids. (i, t) \<in> set rows \<Longrightarrow> insert_all i ids rows = rows"
  by (induction ids arbitrary: rows) (auto simp: insert_do_nothing_def)

lemma exec_inserts_present:
  "\<forall>t \<in> set ids. (i, t) \<in> set (plot_configuration_timeseries tx) \<Longrightarrow>
   exec_inserts db tx i ids = (r, db') \<Longrightarrow>
   \<exists>k \<le> length ids. exec_log db' = exec_log db @ replicate k (InsertAssociation, 0) \<and>
      (\<forall>tx'. r = Inr tx' \<longrightarrow> tx' = tx \<and> k = length ids)"
proof (induction ids arbitrary: db)
  case Nil
  then show ?case by auto
next
  case (Cons t ids)
  show ?case
  proof (cases "faults db (calls db)")
    case (Some e)
    with Cons.prems have "exec_log db' = exec_log db @ replicate 0 (InsertAssociation, 0)" "r = Inl e"
      by (auto simp: stmt_Exec_insert_eq)
    then show ?thesis by blast
  next
    case None
    let ?db = "db\<lparr>calls := Suc (calls db), exec_log := exec_log db @ [(InsertAssociation, 0)]\<rparr>"
    from Cons.prems have in1: "(i, t) \<in> set (plot_configuration_timeseries tx)"
      and rest: "\<forall>t \<in> set ids. (i, t) \<in> set (plot_configuration_timeseries tx)" by simp_all
    from in1 have "tx\<lparr>plot_configuration_timeseries :=
                 insert_do_nothing (i, t) (plot_configuration_timeseries tx)\<rparr> = tx"
      by (simp add: insert_do_nothing_def)
    with None Cons.prems(2) in1 have "exec_inserts ?db tx i ids = (r, db')"
      by (simp add: stmt_Exec_insert_eq)
    from Cons.IH[OF rest this] obtain k where k: "k \<le> length ids"
      "exec_log db' = exec_log ?db @ replicate k (InsertAssociation, 0)"
      "\<forall>tx'. r = Inr tx' \<longrightarrow> tx' = tx \<and> k = length ids" by blast
    then have "Suc k \<le> length (t # ids)"
      "exec_log db' = exec_log db @ replicate (Suc k) (InsertAssociation, 0)"
      "\<forall>tx'. r = Inr tx' \<longrightarrow> tx' = tx \<and> Suc k = length (t # ids)" by simp_all
    then show ?thesis by blast
  qed
qed

lemma stmt_Exec_update_eq:
  "stmt_Exec_update db tx pc =
    (case faults db (calls db) of
       Some e \<Rightarrow> (Inl e, db\<lparr>calls := Suc (calls db)\<rparr>)
     | None \<Rightarrow>
        (Inr (tx\<lparr>plot_configuration := map (update_row pc) (plot_configuration tx)\<rparr>),
         db\<lparr>calls := Suc (calls db),
            exec_log := exec_log db @
              [(UpdatePlotConfig,
                length (filter (\<lambda>p. pc_ProjectID p = pc_ProjectID pc \<and> pc_ID p = pc_ID pc)
                  (plot_configuration tx)))]\<rparr>))"
  by (simp add: stmt_Exec_update_def driver_call_def logged_def split: option.splits)

lemma stmt_Exec_delete_eq:
  "stmt_Exec_delete db tx args =
    (case faults db (calls db) of
       Some e \<Rightarrow> (Inl e, db\<lparr>calls := Suc (calls db)\<rparr>)
     | None \<Rightarrow>
        (Inr (tx\<lparr>plot_configuration_timeseries :=
                 filter (\<lambda>r. \<not> deleted_by args r) (plot_configuration_timeseries tx)\<rparr>),
         db\<lparr>calls := Suc (calls db),
            exec_log := exec_log db @
              [(DeleteAssociationsNotIn,
                length (filter (deleted_by args) (plot_configuration_timeseries tx)))]\<rparr>))"
  by (simp add: stmt_Exec_delete_def driver_call_def logged_def split: option.splits)

lemma Commit_eq:
  "Commit db tx =
    (case faults db (calls db) of
       Some e \<Rightarrow> (Some e, db\<lparr>calls := Suc (calls db)\<rparr>)
     | None \<Rightarrow> (None, db\<lparr>calls := Suc (calls db), data := tx\<rparr>))"
  by (simp add: Commit_def driver_call_def split: option.splits)

lemmas step_eqs = Begin_def Prepare_def stmt_Close_def Rollback_def driver_call_def
  stmt_Exec_update_eq stmt_Exec_delete_eq Commit_eq sqlx_In_def

lemma update_ok_data:
  assumes "UpdatePlotConfiguration db pc = (Ok r, db')"
  shows "pc_TimeseriesID pc \<noteq> [] \<and>
     data db' = (data db)\<lparr>plot_configuration := map (update_row pc) (plot_configuration (data db)),
        plot_configuration_timeseries :=
          insert_all (pc_ID pc) (pc_TimeseriesID pc)
            (filter (\<lambda>r. \<not> deleted_by (pc_ID pc, pc_TimeseriesID pc) r)
               (plot_configuration_timeseries (data db)))\<rparr>"
  using assms unfolding UpdatePlotConfiguration_def
  by (auto simp: step_eqs split: option.splits if_splits prod.splits sum.splits
      dest!: exec_inserts_Inr GetPlotConfiguration_frame dest: exec_inserts_frame)

lemma rows_factory_result:
  "rows_factory db pp rows = ((pp', err), db') \<Longrightarrow> pp' = [] \<or> pp' = pp @ rows"
proof (induction rows arbitrary: db pp)
  case Nil
  then show ?case by simp
next
  case (Cons x rows)
  show ?case
  proof (cases "faults db (calls db)")
    case None
    with Cons.prems have "rows_factory (db\<lparr>calls := Suc (calls db)\<rparr>) (pp @ [x]) rows = ((pp', err), db')"
      by (simp add: driver_call_def)
    from Cons.IH[OF this] show ?thesis by simp
  next
    case (Some e)
    with Cons.prems show ?thesis by (simp add: driver_call_def)
  qed
qed

lemma GetPlotConfiguration_Ok_rows:
  assumes "GetPlotConfiguration db p i = (Ok r, db')"
  shows "\<exists>rs. filter (\<lambda>x. pc_ProjectID x = p \<and> pc_ID x = i) (v_plot_configuration (data db)) = r # rs"
proof -
  let ?rows = "filter (\<lambda>x. pc_ProjectID x = p \<and> pc_ID x = i) (v_plot_configuration (data db))"
  let ?db = "db\<lparr>calls := Suc (calls db)\<rparr>"
  from assms have ok: "faults db (calls db) = None"
    by (cases "faults db (calls db)") (simp_all add: GetPlotConfiguration_def Queryx_def driver_call_def)
  obtain pp err db2 where f: "rows_factory ?db [] ?rows = ((pp, err), db2)"
    by (cases "rows_factory ?db [] ?rows") auto
  have g: "GetPlotConfiguration db p i =
      (case pp of [] \<Rightarrow> (Panic ''index out of range [0] with length 0'', db2) | x # _ \<Rightarrow> (Ok x, db2))"
    by (simp add: GetPlotConfiguration_def Queryx_def driver_call_def PlotConfigFactory_def ok f
        del: rows_factory.simps)
  from assms g obtain ps where pp: "pp = r # ps"
    by (cases pp) simp_all
  from rows_factory_result[OF f] pp have "?rows = r # ps" by simp
  then show ?thesis by blast
qed

lemma rows_factory_all_ok:
  "\<forall>n \<ge> calls db. faults db n = None \<Longrightarrow>
   rows_factory db pp rows = ((pp @ rows, None), db\<lparr>calls := calls db + length rows\<rparr>)"
proof (induction rows arbitrary: db pp)
  case Nil
  then show ?case by simp
next
  case (Cons x rows)
  let ?db = "db\<lparr>calls := Suc (calls db)\<rparr>"
  from Cons.prems have 0: "faults db (calls db) = None" by simp
  from Cons.prems have 1: "\<forall>n \<ge> calls ?db. faults ?db n = None" by simp
  show ?case using Cons.IH[OF 1, of "pp @ [x]"] 0 by (simp add: driver_call_def)
qed

lemma GetPlotConfiguration_all_ok:
  assumes "\<forall>n \<ge> calls db. faults db n = None"
    and "filter (\<lambda>x. pc_ProjectID x = p \<and> pc_ID x = i) (v_plot_configuration (data db)) = r # rs"
  shows "GetPlotConfiguration db p i = (Ok r, db\<lparr>calls := calls db + Suc (Suc (length rs))\<rparr>)"
proof -
  let ?db = "db\<lparr>calls := Suc (calls db)\<rparr>"
  from assms(1) have 0: "faults db (calls db) = None" by simp
  from assms(1) have 1: "\<forall>n \<ge> calls ?db. faults ?db n = None" by simp
  show ?thesis
    using 0 assms(2) rows_factory_all_ok[OF 1, of "[]" "r # rs"]
    by (simp add: GetPlotConfiguration_def Queryx_def driver_call_def PlotConfigFactory_def
        del: rows_factory.simps)
qed

lemma exec_inserts_all_ok:
  "\<forall>n \<ge> calls db. faults db n = None \<Longrightarrow>
   \<forall>t \<in> set ids. (i, t) \<in> set (plot_configuration_timeseries tx) \<Longrightarrow>
   exec_inserts db tx i ids =
     (Inr tx, db\<lparr>calls := calls db + length ids,
                exec_log := exec_log db @ replicate (length ids) (InsertAssociation, 0)\<rparr>)"
proof (induction ids arbitrary: db)
  case Nil
  then show ?case by simp
next
  case (Cons t ids)
  let ?db = "db\<lparr>calls := Suc (calls db), exec_log := exec_log db @ [(InsertAssociation, 0)]\<rparr>"
  from Cons.prems have 0: "faults db (calls db) = None" by simp
  from Cons.prems have 1: "\<forall>n \<ge> calls ?db. faults ?db n = None" by simp
  from Cons.prems have in1: "(i, t) \<in> set (plot_configuration_timeseries tx)"
    and rest: "\<forall>t \<in> set ids. (i, t) \<in> set (plot_configuration_timeseries tx)" by simp_all
  from in1 have same: "tx\<lparr>plot_configuration_timeseries :=
                 insert_do_nothing (i, t) (plot_configuration_timeseries tx)\<rparr> = tx"
    by (simp add: insert_do_nothing_def)
  show ?case using Cons.IH[OF 1 rest] 0 in1 same
    by (simp add: stmt_Exec_insert_eq replicate_app_Cons_same)
qed

lemma update_row_idem: "update_row pc (update_row pc p) = update_row pc p"
  by (simp add: update_row_def)

lemma after_reconcile:
  assumes "UpdatePlotConfiguration db pc = (Ok r, db1)"
  shows "(\<forall>x \<in> set (plot_configuration_timeseries (data db1)).
            \<not> deleted_by (pc_ID pc, pc_TimeseriesID pc) x) \<and>
         (\<forall>t \<in> set (pc_TimeseriesID pc). (pc_ID pc, t) \<in> set (plot_configuration_timeseries (data db1))) \<and>
         map (update_row pc) (plot_configuration (data db1)) = plot_configuration (data db1)"
  using update_ok_data[OF assms]
  by (auto simp: set_insert_all deleted_by_def update_row_idem)

lemma update_ok_rows:
  assumes "UpdatePlotConfiguration db pc = (Ok r, db1)"
  shows "\<exists>rs. filter (\<lambda>x. pc_ProjectID x = pc_ProjectID pc \<and> pc_ID x = pc_ID pc)
            (v_plot_configuration (data db1)) = r # rs"
proof -
  from assms obtain db11 where g: "GetPlotConfiguration db11 (pc_ProjectID pc) (pc_ID pc) = (Ok r, db1)"
    unfolding UpdatePlotConfiguration_def
    by (auto split: option.splits prod.splits sum.splits)
  from GetPlotConfiguration_Ok_rows[OF g] GetPlotConfiguration_frame[OF g] show ?thesis by simp
qed

lemma no_association_written_simps [simp]:
  "no_association_written []" "no_association_written (x # l) = ((fst x = UpdatePlotConfig \<or> snd x = 0) \<and> no_association_written l)"
  "no_association_written (l @ m) = (no_association_written l \<and> no_association_written m)" "no_association_written (replicate k (InsertAssociation, 0))"
  by (auto simp: no_association_written_def)

lemma exec_inserts_write_nothing:
  assumes "exec_inserts db tx i ids = (r, db')"
    and "\<forall>t \<in> set ids. (i, t) \<in> set (plot_configuration_timeseries tx)"
  shows "data db' = data db \<and> faults db' = faults db \<and>
         (\<exists>l. exec_log db' = exec_log db @ l \<and> no_association_written l) \<and> (\<forall>tx'. r = Inr tx' \<longrightarrow> tx' = tx)"
proof -
  from exec_inserts_present[OF assms(2,1)] obtain k where
    "exec_log db' = exec_log db @ replicate k (InsertAssociation, 0)"
    "\<forall>tx'. r = Inr tx' \<longrightarrow> tx' = tx \<and> k = length ids" by blast
  moreover have "no_association_written (replicate k (InsertAssociation, 0))" by simp
  ultimately show ?thesis using exec_inserts_frame[OF assms(1)] by blast
qed

lemma second_call_writes_nothing:
  assumes a: "\<forall>r \<in> set (plot_configuration_timeseries (data db)).
                \<not> deleted_by (pc_ID pc, pc_TimeseriesID pc) r"
    and b: "\<forall>t \<in> set (pc_TimeseriesID pc). (pc_ID pc, t) \<in> set (plot_configuration_timeseries (data db))"
    and c: "UpdatePlotConfiguration db pc = (res, db')"
  shows "plot_configuration_timeseries (data db') = plot_configuration_timeseries (data db) \<and>
         (\<exists>l. exec_log db' = exec_log db @ l \<and> no_association_written l)"
proof -
  let ?rows = "plot_configuration_timeseries (data db)"
  have f1: "filter (\<lambda>r. \<not> deleted_by (pc_ID pc, pc_TimeseriesID pc) r) ?rows = ?rows"
    using a by (simp add: filter_True)
  have f2: "filter (deleted_by (pc_ID pc, pc_TimeseriesID pc)) ?rows = []"
    using a by (simp add: filter_False)
  let ?tx = "(data db)\<lparr>plot_configuration := map (update_row pc) (plot_configuration (data db))\<rparr>"
  have b': "\<forall>t \<in> set (pc_TimeseriesID pc). (pc_ID pc, t) \<in> set (plot_configuration_timeseries ?tx)"
    using b by simp
  have tx: "?tx\<lparr>plot_configuration_timeseries := ?rows\<rparr> = ?tx" by simp
  let ?k = "length (filter (\<lambda>p. pc_ProjectID p = pc_ProjectID pc \<and> pc_ID p = pc_ID pc)
                  (plot_configuration (data db)))"
  let ?l = "[(UpdatePlotConfig, ?k), (DeleteAssociationsNotIn, 0)]"
  let ?db6 = "db\<lparr>calls := Suc (Suc (Suc (Suc (Suc (Suc (calls db)))))),
                 exec_log := exec_log db @ ?l\<rparr>"
  obtain rI dbI where ins: "exec_inserts ?db6 ?tx (pc_ID pc) (pc_TimeseriesID pc) = (rI, dbI)"
    by (cases "exec_inserts ?db6 ?tx (pc_ID pc) (pc_TimeseriesID pc)") auto
  from exec_inserts_write_nothing[OF ins b'] obtain m where
    dI6: "data dbI = data ?db6" and fI6: "faults dbI = faults ?db6" and
    lI6: "exec_log dbI = exec_log ?db6 @ m" and qm: "no_association_written m" and
    tI6: "\<forall>tx'. rI = Inr tx' \<longrightarrow> tx' = ?tx" by blast
  from dI6 have dI: "data dbI = data db" by simp
  from fI6 have fI: "faults dbI = faults db" by simp
  from lI6 have lI: "exec_log dbI = exec_log db @ ?l @ m" by simp
  from tI6 have tI: "\<And>tx'. rI = Inr tx' \<Longrightarrow> tx' = ?tx" by blast
  let ?db11 = "dbI\<lparr>calls := Suc (Suc (Suc (Suc (calls dbI)))), data := ?tx\<rparr>"
  obtain rG dbG where get: "GetPlotConfiguration ?db11 (pc_ProjectID pc) (pc_ID pc) = (rG, dbG)"
    by (cases "GetPlotConfiguration ?db11 (pc_ProjectID pc) (pc_ID pc)") auto
  from GetPlotConfiguration_frame[OF get] have
    dG: "data dbG = ?tx" and lG: "exec_log dbG = exec_log dbI" by simp_all
  have q: "no_association_written (?l @ m)" using qm by simp
  have goal: "\<And>d. (data d = data db \<or> data d = ?tx) \<Longrightarrow>
        (exec_log d = exec_log db \<or> exec_log d = exec_log db @ [(UpdatePlotConfig, ?k)] \<or>
         exec_log d = exec_log db @ ?l \<or> exec_log d = exec_log db @ ?l @ m) \<Longrightarrow>
        plot_configuration_timeseries (data d) = plot_configuration_timeseries (data db) \<and>
         (\<exists>l. exec_log d = exec_log db @ l \<and> no_association_written l)"
  proof -
    fix d
    assume 1: "data d = data db \<or> data d = ?tx"
      and 2: "exec_log d = exec_log db \<or> exec_log d = exec_log db @ [(UpdatePlotConfig, ?k)] \<or>
         exec_log d = exec_log db @ ?l \<or> exec_log d = exec_log db @ ?l @ m"
    from 1 have p: "plot_configuration_timeseries (data d) = plot_configuration_timeseries (data db)"
    proof
      assume "data d = data db" then show ?thesis by simp
    next
      assume "data d = ?tx" then show ?thesis by simp
    qed
    have e: "\<exists>l. exec_log d = exec_log db @ l \<and> no_association_written l"
    proof -
      consider "exec_log d = exec_log db @ []" | "exec_log d = exec_log db @ [(UpdatePlotConfig, ?k)]"
        | "exec_log d = exec_log db @ ?l" | "exec_log d = exec_log db @ (?l @ m)"
        using 2 by auto
      then show ?thesis
      proof cases
        case 1 then show ?thesis using no_association_written_simps(1) by blast
      next
        case 2
        have "no_association_written [(UpdatePlotConfig, ?k)]" by simp
        with 2 show ?thesis by blast
      next
        case 3
        have "no_association_written ?l" by simp
        with 3 show ?thesis by blast
      next
        case 4 with q show ?thesis by blast
      qed
    qed
    from p e show "plot_configuration_timeseries (data d) = plot_configuration_timeseries (data db) \<and>
         (\<exists>l. exec_log d = exec_log db @ l \<and> no_association_written l)" by blast
  qed
  have "(data db' = data db \<or> data db' = ?tx) \<and>
        (exec_log db' = exec_log db \<or> exec_log db' = exec_log db @ [(UpdatePlotConfig, ?k)] \<or>
         exec_log db' = exec_log db @ ?l \<or> exec_log db' = exec_log db @ ?l @ m)"
  proof (cases rI)
    case (Inl e)
    with c ins dI lI show ?thesis unfolding UpdatePlotConfiguration_def
      by (simp add: step_eqs f1 f2 tx split: option.splits if_splits) auto
  next
    case (Inr tx')
    with tI have "rI = Inr ?tx" by simp
    with c ins get dI lI dG lG show ?thesis unfolding UpdatePlotConfiguration_def
      by (simp add: step_eqs f1 f2 tx fI split: option.splits if_splits) auto
  qed
  then show ?thesis using goal[of db'] by blast
qed

lemma second_call_all_ok:
  assumes first: "UpdatePlotConfiguration db pc = (Ok r, db1)"
    and nf: "\<forall>n \<ge> calls db1. faults db1 n = None"
  shows "\<exists>db2 k. UpdatePlotConfiguration db1 pc = (Ok r, db2) \<and> data db2 = data db1 \<and>
           exec_log db2 = exec_log db1 @ (UpdatePlotConfig, k) # (DeleteAssociationsNotIn, 0) #
              replicate (length (pc_TimeseriesID pc)) (InsertAssociation, 0)"
proof -
  let ?i = "pc_ID pc" and ?ids = "pc_TimeseriesID pc"
  let ?rows = "plot_configuration_timeseries (data db1)"
  let ?k = "length (filter (\<lambda>p. pc_ProjectID p = pc_ProjectID pc \<and> pc_ID p = pc_ID pc)
                  (plot_configuration (data db1)))"
  from update_ok_data[OF first] have ne: "?ids \<noteq> []" by simp
  from after_reconcile[OF first] have
    a: "\<forall>x \<in> set ?rows. \<not> deleted_by (?i, ?ids) x" and
    b: "\<forall>t \<in> set ?ids. (?i, t) \<in> set ?rows" and
    c: "map (update_row pc) (plot_configuration (data db1)) = plot_configuration (data db1)"
    by simp_all
  have f1: "filter (\<lambda>r. \<not> deleted_by (?i, ?ids) r) ?rows = ?rows"
    using a by (simp add: filter_True)
  have f2: "filter (deleted_by (?i, ?ids)) ?rows = []"
    using a by (simp add: filter_False)
  from update_ok_rows[OF first] obtain rs where
    rows: "filter (\<lambda>x. pc_ProjectID x = pc_ProjectID pc \<and> pc_ID x = pc_ID pc)
            (v_plot_configuration (data db1)) = r # rs" by blast
  have z: "\<And>n. calls db1 \<le> n \<Longrightarrow> faults db1 n = None" using nf by simp
  let ?db6 = "db1\<lparr>calls := calls db1 + 6,
      exec_log := exec_log db1 @ [(UpdatePlotConfig, ?k), (DeleteAssociationsNotIn, 0)]\<rparr>"
  have nf6: "\<forall>n \<ge> calls ?db6. faults ?db6 n = None" using nf by simp
  have b6: "\<forall>t \<in> set ?ids. (?i, t) \<in> set (plot_configuration_timeseries (data db1))" using b .
  note ins = exec_inserts_all_ok[OF nf6 b6]
  let ?db7 = "db1\<lparr>calls := calls db1 + 6 + length ?ids,
      exec_log := exec_log db1 @ [(UpdatePlotConfig, ?k), (DeleteAssociationsNotIn, 0)] @
         replicate (length ?ids) (InsertAssociation, 0)\<rparr>"
  let ?db11 = "?db7\<lparr>calls := calls db1 + 10 + length ?ids\<rparr>"
  have nf11: "\<forall>n \<ge> calls ?db11. faults ?db11 n = None" using nf by simp
  have rows11: "filter (\<lambda>x. pc_ProjectID x = pc_ProjectID pc \<and> pc_ID x = pc_ID pc)
            (v_plot_configuration (data ?db11)) = r # rs" using rows by simp
  note get = GetPlotConfiguration_all_ok[OF nf11 rows11]
  have tx: "(data db1)\<lparr>plot_configuration := plot_configuration (data db1),
              plot_configuration_timeseries := ?rows\<rparr> = data db1" by simp
  have "UpdatePlotConfiguration db1 pc = (Ok r, ?db11\<lparr>calls := calls ?db11 + Suc (Suc (length rs))\<rparr>)"
    unfolding UpdatePlotConfiguration_def
    using ne ins get
    by (simp add: step_eqs z f1 f2 c tx numeral_eq_Suc add.commute)
  then show ?thesis by auto
qed

lemma view_rows_filter:
  "filter (\<lambda>x. pc_ProjectID x = p \<and> pc_ID x = i) (v_plot_configuration d) =
   map (\<lambda>x. x\<lparr>pc_TimeseriesID :=
                 map snd (filter (\<lambda>r. fst r = pc_ID x) (plot_configuration_timeseries d))\<rparr>)
     (filter (\<lambda>x. pc_ProjectID x = p \<and> pc_ID x = i) (plot_configuration d))"
  by (simp add: v_plot_configuration_def filter_map comp_def)

lemma update_row_keys:
  "pc_ProjectID (update_row pc x) = pc_ProjectID x" "pc_ID (update_row pc x) = pc_ID x"
  by (simp_all add: update_row_def)

lemma filter_updated_rows:
  "filter (\<lambda>x. pc_ProjectID x = p \<and> pc_ID x = i) (map (update_row pc) xs) =
   map (update_row pc) (filter (\<lambda>x. pc_ProjectID x = p \<and> pc_ID x = i) xs)"
  by (simp add: filter_map comp_def update_row_keys)

lemma second_call_same_set_ok:
  assumes first: "UpdatePlotConfiguration db pc = (Ok r, db1)"
    and nf: "\<forall>n \<ge> calls db1. faults db1 n = None"
    and id: "pc_ID pc2 = pc_ID pc" and pr: "pc_ProjectID pc2 = pc_ProjectID pc"
    and st: "set (pc_TimeseriesID pc2) = set (pc_TimeseriesID pc)"
  shows "\<exists>r2 db2 k. UpdatePlotConfiguration db1 pc2 = (Ok r2, db2) \<and>
           plot_configuration_timeseries (data db2) = plot_configuration_timeseries (data db1) \<and>
           exec_log db2 = exec_log db1 @ (UpdatePlotConfig, k) # (DeleteAssociationsNotIn, 0) #
              replicate (length (pc_TimeseriesID pc2)) (InsertAssociation, 0)"
proof -
  let ?i = "pc_ID pc2" and ?ids = "pc_TimeseriesID pc2"
  let ?rows = "plot_configuration_timeseries (data db1)"
  let ?key = "\<lambda>x. pc_ProjectID x = pc_ProjectID pc2 \<and> pc_ID x = pc_ID pc2"
  let ?k = "length (filter ?key (plot_configuration (data db1)))"
  let ?tx = "(data db1)\<lparr>plot_configuration := map (update_row pc2) (plot_configuration (data db1))\<rparr>"
  from update_ok_data[OF first] st have ne: "?ids \<noteq> []" by auto
  from after_reconcile[OF first] id st have
    a: "\<forall>x \<in> set ?rows. \<not> deleted_by (?i, ?ids) x" and
    b: "\<forall>t \<in> set ?ids. (?i, t) \<in> set ?rows"
    by (simp_all add: deleted_by_def)
  have f1: "filter (\<lambda>r. \<not> deleted_by (?i, ?ids) r) ?rows = ?rows"
    using a by (simp add: filter_True)
  have f2: "filter (deleted_by (?i, ?ids)) ?rows = []"
    using a by (simp add: filter_False)
  from update_ok_rows[OF first] id pr obtain rs where
    "filter ?key (v_plot_configuration (data db1)) = r # rs" by auto
  then have "filter ?key (plot_configuration (data db1)) \<noteq> []"
    by (auto simp: view_rows_filter)
  then have "filter ?key (v_plot_configuration ?tx) \<noteq> []"
    by (simp add: view_rows_filter filter_updated_rows)
  then obtain r2 rs2 where rows2: "filter ?key (v_plot_configuration ?tx) = r2 # rs2"
    by (cases "filter ?key (v_plot_configuration ?tx)") auto
  have z: "\<And>n. calls db1 \<le> n \<Longrightarrow> faults db1 n = None" using nf by simp
  let ?db6 = "db1\<lparr>calls := calls db1 + 6,
      exec_log := exec_log db1 @ [(UpdatePlotConfig, ?k), (DeleteAssociationsNotIn, 0)]\<rparr>"
  have nf6: "\<forall>n \<ge> calls ?db6. faults ?db6 n = None" using nf by simp
  have b6: "\<forall>t \<in> set ?ids. (?i, t) \<in> set (plot_configuration_timeseries ?tx)" using b by simp
  note ins = exec_inserts_all_ok[OF nf6 b6]
  let ?db7 = "db1\<lparr>calls := calls db1 + 6 + length ?ids,
      exec_log := exec_log db1 @ [(UpdatePlotConfig, ?k), (DeleteAssociationsNotIn, 0)] @
         replicate (length ?ids) (InsertAssociation, 0)\<rparr>"
  let ?db11 = "?db7\<lparr>calls := calls db1 + 10 + length ?ids, data := ?tx\<rparr>"
  have nf11: "\<forall>n \<ge> calls ?db11. faults ?db11 n = None" using nf by simp
  have rows11: "filter ?key (v_plot_configuration (data ?db11)) = r2 # rs2" using rows2 by simp
  note get = GetPlotConfiguration_all_ok[OF nf11 rows11]
  have tx: "?tx\<lparr>plot_configuration_timeseries := ?rows\<rparr> = ?tx" by simp
  have "UpdatePlotConfiguration db1 pc2 = (Ok r2, ?db11\<lparr>calls := calls ?db11 + Suc (Suc (length rs2))\<rparr>)"
    unfolding UpdatePlotConfiguration_def
    using ne ins get
    by (simp add: step_eqs z f1 f2 tx numeral_eq_Suc add.commute)
  then show ?thesis by auto
qed

lemma reconcile_empty_never_succeeds:
  assumes "pc_TimeseriesID pc = []"
  shows "\<exists>e db'. UpdatePlotConfiguration db pc = (Err e, db') \<and> data db' = data db"
  using assms unfolding UpdatePlotConfiguration_def
  by (simp add: step_eqs split: option.splits)

lemma GetProject_no_rows:
  assumes "faults db (calls db) = None" and "filter (\<lambda>p. p_ID p = i) (v_project (data db)) = []"
  shows "GetProject db i =
           (Panic ''index out of range [0] with length 0'', db\<lparr>calls := Suc (calls db)\<rparr>)"
  using assms by (simp add: GetProject_def Queryx_def driver_call_def ProjectFactory_def)

lemma GetPlotConfiguration_no_rows:
  assumes "faults db (calls db) = None"
    and "filter (\<lambda>x. pc_ProjectID x = p \<and> pc_ID x = i) (v_plot_configuration (data db)) = []"
  shows "GetPlotConfiguration db p i =
           (Panic ''index out of range [0] with length 0'', db\<lparr>calls := Suc (calls db)\<rparr>)"
  using assms by (simp add: GetPlotConfiguration_def Queryx_def driver_call_def PlotConfigFactory_def)

lemmas plot_eval = UpdatePlotConfiguration_def GetPlotConfiguration_def Queryx_def
  PlotConfigFactory_def v_plot_configuration_def Begin_def Prepare_def stmt_Close_def Commit_def
  Rollback_def driver_call_def sqlx_In_def stmt_Exec_update_def stmt_Exec_delete_def
  stmt_Exec_insert_def logged_def deleted_by_def update_row_def
  example_db_def example_data_def example_plot_def example_audit_def

lemma first_eval:
  "UpdatePlotConfiguration (example_db (\<lambda>n. None)) (example_plot\<lparr>pc_TimeseriesID := [7, 9]\<rparr>) =
    (Ok (example_plot\<lparr>pc_TimeseriesID := [7, 9]\<rparr>),
     \<lparr>data = example_data\<lparr>plot_configuration_timeseries := [(5, 7), (5, 9)]\<rparr>,
      faults = (\<lambda>n. None), calls = 14,
      exec_log = [(UpdatePlotConfig, 1), (DeleteAssociationsNotIn, 1),
                  (InsertAssociation, 0), (InsertAssociation, 1)]\<rparr>)"
  by (simp add: plot_eval)

text \<open>
  Claim C6. On the example store, whose plot configuration \<open>5\<close> has two associated
  timeseries, \<^verbatim>\<open>UpdatePlotConfiguration\<close> with the empty sequence returns the error of
  \<^verbatim>\<open>sqlx.In\<close> after three calls to the driver (begin, prepare, roll back), and both
  associations are still there. (By \<open>reconcile_empty_never_succeeds\<close> the same holds on
  every store: with the empty sequence the function returns an error and commits nothing.)
\<close>

theorem reconcile_to_empty_fails:
  "UpdatePlotConfiguration (example_db (\<lambda>n. None)) (example_plot\<lparr>pc_TimeseriesID := []\<rparr>) =
     (Err EmptySliceIn, (example_db (\<lambda>n. None))\<lparr>calls := 3\<rparr>) \<and>
   associations (data ((example_db (\<lambda>n. None))\<lparr>calls := 3\<rparr>)) 5 = [(5, 7), (5, 8)]"
  by (simp add: UpdatePlotConfiguration_def Begin_def Prepare_def Rollback_def driver_call_def
      sqlx_In_def associations_def example_db_def example_data_def example_plot_def)

text \<open>
  Claim C7. After a successful \<^verbatim>\<open>UpdatePlotConfiguration\<close> with \<open>pc\<close>, take a second call
  with any \<open>pc2\<close> that names the same plot configuration and the same set of timeseries
  (its name, its audit fields, and the order and repetitions in its sequence are free).
  Whatever the outcome of the second call, the association rows are what they were, and
  while it runs no delete and no insert affects a row. When \<open>pc2\<close> also names the same
  project and the driver answers all its calls, the second call succeeds, and the server
  records one update, one delete of zero rows and, for each entry of the desired sequence,
  one insert of zero rows. When the second call is given \<open>pc\<close> itself, it moreover returns
  what the first returned and leaves all the data as it is.
\<close>

theorem reconcile_twice_idempotent:
  "(UpdatePlotConfiguration db pc = (Ok r, db1) \<and> pc_ID pc2 = pc_ID pc \<and>
    set (pc_TimeseriesID pc2) = set (pc_TimeseriesID pc) \<and>
    UpdatePlotConfiguration db1 pc2 = (res, db2) \<longrightarrow>
      plot_configuration_timeseries (data db2) = plot_configuration_timeseries (data db1) \<and>
      (\<exists>l. exec_log db2 = exec_log db1 @ l \<and> no_association_written l)) \<and>
   (UpdatePlotConfiguration db pc = (Ok r, db1) \<and> pc_ID pc2 = pc_ID pc \<and>
    pc_ProjectID pc2 = pc_ProjectID pc \<and>
    set (pc_TimeseriesID pc2) = set (pc_TimeseriesID pc) \<and>
    (\<forall>n \<ge> calls db1. faults db1 n = None) \<longrightarrow>
      (\<exists>r2 db3 k. UpdatePlotConfiguration db1 pc2 = (Ok r2, db3) \<and>
         plot_configuration_timeseries (data db3) = plot_configuration_timeseries (data db1) \<and>
         exec_log db3 = exec_log db1 @ (UpdatePlotConfig, k) # (DeleteAssociationsNotIn, 0) #
            replicate (length (pc_TimeseriesID pc2)) (InsertAssociation, 0))) \<and>
   (UpdatePlotConfiguration db pc = (Ok r, db1) \<and> (\<forall>n \<ge> calls db1. faults db1 n = None) \<longrightarrow>
      (\<exists>db3 k. UpdatePlotConfiguration db1 pc = (Ok r, db3) \<and> data db3 = data db1 \<and>
         exec_log db3 = exec_log db1 @ (UpdatePlotConfig, k) # (DeleteAssociationsNotIn, 0) #
            replicate (length (pc_TimeseriesID pc)) (InsertAssociation, 0)))"
proof (intro conjI)
  show "UpdatePlotConfiguration db pc = (Ok r, db1) \<and> pc_ID pc2 = pc_ID pc \<and>
    set (pc_TimeseriesID pc2) = set (pc_TimeseriesID pc) \<and>
    UpdatePlotConfiguration db1 pc2 = (res, db2) \<longrightarrow>
      plot_configuration_timeseries (data db2) = plot_configuration_timeseries (data db1) \<and>
      (\<exists>l. exec_log db2 = exec_log db1 @ l \<and> no_association_written l)"
  proof
    assume a: "UpdatePlotConfiguration db pc = (Ok r, db1) \<and> pc_ID pc2 = pc_ID pc \<and>
      set (pc_TimeseriesID pc2) = set (pc_TimeseriesID pc) \<and>
      UpdatePlotConfiguration db1 pc2 = (res, db2)"
    then have 1: "UpdatePlotConfiguration db pc = (Ok r, db1)"
      and 2: "UpdatePlotConfiguration db1 pc2 = (res, db2)"
      and i: "pc_ID pc2 = pc_ID pc" and s: "set (pc_TimeseriesID pc2) = set (pc_TimeseriesID pc)"
      by simp_all
    from after_reconcile[OF 1] i s have
      "\<forall>x \<in> set (plot_configuration_timeseries (data db1)).
          \<not> deleted_by (pc_ID pc2, pc_TimeseriesID pc2) x"
      "\<forall>t \<in> set (pc_TimeseriesID pc2). (pc_ID pc2, t) \<in> set (plot_configuration_timeseries (data db1))"
      by (simp_all add: deleted_by_def)
    from second_call_writes_nothing[OF this 2]
    show "plot_configuration_timeseries (data db2) = plot_configuration_timeseries (data db1) \<and>
      (\<exists>l. exec_log db2 = exec_log db1 @ l \<and> no_association_written l)" by blast
  qed
next
  show "UpdatePlotConfiguration db pc = (Ok r, db1) \<and> pc_ID pc2 = pc_ID pc \<and>
    pc_ProjectID pc2 = pc_ProjectID pc \<and>
    set (pc_TimeseriesID pc2) = set (pc_TimeseriesID pc) \<and>
    (\<forall>n \<ge> calls db1. faults db1 n = None) \<longrightarrow>
      (\<exists>r2 db3 k. UpdatePlotConfiguration db1 pc2 = (Ok r2, db3) \<and>
         plot_configuration_timeseries (data db3) = plot_configuration_timeseries (data db1) \<and>
         exec_log db3 = exec_log db1 @ (UpdatePlotConfig, k) # (DeleteAssociationsNotIn, 0) #
            replicate (length (pc_TimeseriesID pc2)) (InsertAssociation, 0))"
  proof
    assume a: "UpdatePlotConfiguration db pc = (Ok r, db1) \<and> pc_ID pc2 = pc_ID pc \<and>
      pc_ProjectID pc2 = pc_ProjectID pc \<and>
      set (pc_TimeseriesID pc2) = set (pc_TimeseriesID pc) \<and>
      (\<forall>n \<ge> calls db1. faults db1 n = None)"
    then have 1: "UpdatePlotConfiguration db pc = (Ok r, db1)"
      and 2: "\<forall>n \<ge> calls db1. faults db1 n = None"
      and i: "pc_ID pc2 = pc_ID pc" and p: "pc_ProjectID pc2 = pc_ProjectID pc"
      and s: "set (pc_TimeseriesID pc2) = set (pc_TimeseriesID pc)"
      by simp_all
    from second_call_same_set_ok[OF 1 2 i p s]
    show "\<exists>r2 db3 k. UpdatePlotConfiguration db1 pc2 = (Ok r2, db3) \<and>
         plot_configuration_timeseries (data db3) = plot_configuration_timeseries (data db1) \<and>
         exec_log db3 = exec_log db1 @ (UpdatePlotConfig, k) # (DeleteAssociationsNotIn, 0) #
            replicate (length (pc_TimeseriesID pc2)) (InsertAssociation, 0)" .
  qed
next
  show "UpdatePlotConfiguration db pc = (Ok r, db1) \<and> (\<forall>n \<ge> calls db1. faults db1 n = None) \<longrightarrow>
      (\<exists>db3 k. UpdatePlotConfiguration db1 pc = (Ok r, db3) \<and> data db3 = data db1 \<and>
         exec_log db3 = exec_log db1 @ (UpdatePlotConfig, k) # (DeleteAssociationsNotIn, 0) #
            replicate (length (pc_TimeseriesID pc)) (InsertAssociation, 0))"
  proof
    assume a: "UpdatePlotConfiguration db pc = (Ok r, db1) \<and> (\<forall>n \<ge> calls db1. faults db1 n = None)"
    then have 1: "UpdatePlotConfiguration db pc = (Ok r, db1)"
      and 2: "\<forall>n \<ge> calls db1. faults db1 n = None" by simp_all
    from second_call_all_ok[OF 1 2]
    show "\<exists>db3 k. UpdatePlotConfiguration db1 pc = (Ok r, db3) \<and> data db3 = data db1 \<and>
         exec_log db3 = exec_log db1 @ (UpdatePlotConfig, k) # (DeleteAssociationsNotIn, 0) #
            replicate (length (pc_TimeseriesID pc)) (InsertAssociation, 0)" .
  qed
qed

text \<open>
  Two reconciliations of the example plot configuration to the timeseries \<open>7\<close> and \<open>9\<close>:
  the first deletes one association and inserts one; the second, given a new name, a new
  updater and the sequence \<open>9, 7, 9\<close>, deletes and inserts none.
\<close>

theorem reconcile_twice_idempotent_witness:
  "UpdatePlotConfiguration (example_db (\<lambda>n. None)) (example_plot\<lparr>pc_TimeseriesID := [7, 9]\<rparr>) =
    (Ok (example_plot\<lparr>pc_TimeseriesID := [7, 9]\<rparr>),
     \<lparr>data = example_data\<lparr>plot_configuration_timeseries := [(5, 7), (5, 9)]\<rparr>,
      faults = (\<lambda>n. None), calls = 14,
      exec_log = [(UpdatePlotConfig, 1), (DeleteAssociationsNotIn, 1),
                  (InsertAssociation, 0), (InsertAssociation, 1)]\<rparr>) \<and>
   (\<exists>r2 db3 k. UpdatePlotConfiguration
        \<lparr>data = example_data\<lparr>plot_configuration_timeseries := [(5, 7), (5, 9)]\<rparr>,
         faults = (\<lambda>n. None), calls = 14,
         exec_log = [(UpdatePlotConfig, 1), (DeleteAssociationsNotIn, 1),
                     (InsertAssociation, 0), (InsertAssociation, 1)]\<rparr>
        (example_plot\<lparr>pc_Name := ''renamed'', pc_TimeseriesID := [9, 7, 9],
           pc_Audit := example_audit\<lparr>Updater := Some 4, UpdateDate := Some 100\<rparr>\<rparr>) = (Ok r2, db3) \<and>
      plot_configuration_timeseries (data db3) = [(5, 7), (5, 9)] \<and>
      exec_log db3 = [(UpdatePlotConfig, 1), (DeleteAssociationsNotIn, 1),
                      (InsertAssociation, 0), (InsertAssociation, 1),
                      (UpdatePlotConfig, k), (DeleteAssociationsNotIn, 0),
                      (InsertAssociation, 0), (InsertAssociation, 0), (InsertAssociation, 0)])"
proof -
  let ?db = "example_db (\<lambda>n. None)"
  let ?pc = "example_plot\<lparr>pc_TimeseriesID := [7, 9]\<rparr>"
  let ?pc2 = "example_plot\<lparr>pc_Name := ''renamed'', pc_TimeseriesID := [9, 7, 9],
           pc_Audit := example_audit\<lparr>Updater := Some 4, UpdateDate := Some 100\<rparr>\<rparr>"
  let ?db1 = "\<lparr>data = example_data\<lparr>plot_configuration_timeseries := [(5, 7), (5, 9)]\<rparr>,
      faults = (\<lambda>n. None), calls = 14,
      exec_log = [(UpdatePlotConfig, 1), (DeleteAssociationsNotIn, 1),
                  (InsertAssociation, 0), (InsertAssociation, 1)]\<rparr> :: real DB"
  have 1: "UpdatePlotConfiguration ?db ?pc = (Ok ?pc, ?db1)" by (rule first_eval)
  have 2: "\<forall>n \<ge> calls ?db1. faults ?db1 n = None" by simp
  have 3: "pc_ID ?pc2 = pc_ID ?pc" by simp
  have 4: "pc_ProjectID ?pc2 = pc_ProjectID ?pc" by simp
  have 5: "set (pc_TimeseriesID ?pc2) = set (pc_TimeseriesID ?pc)" by auto
  from reconcile_twice_idempotent[where db="?db" and pc="?pc" and r="?pc" and ?db1.0="?db1"
      and ?pc2.0="?pc2"] 1 2 3 4 5
  obtain r2 db3 k where "UpdatePlotConfiguration ?db1 ?pc2 = (Ok r2, db3)"
    "plot_configuration_timeseries (data db3) = plot_configuration_timeseries (data ?db1)"
    "exec_log db3 = exec_log ?db1 @ (UpdatePlotConfig, k) # (DeleteAssociationsNotIn, 0) #
            replicate (length (pc_TimeseriesID ?pc2)) (InsertAssociation, 0)" by blast
  then have "UpdatePlotConfiguration ?db1 ?pc2 = (Ok r2, db3) \<and>
      plot_configuration_timeseries (data db3) = [(5, 7), (5, 9)] \<and>
      exec_log db3 = [(UpdatePlotConfig, 1), (DeleteAssociationsNotIn, 1),
                      (InsertAssociation, 0), (InsertAssociation, 1),
                      (UpdatePlotConfig, k), (DeleteAssociationsNotIn, 0),
                      (InsertAssociation, 0), (InsertAssociation, 0), (InsertAssociation, 0)]"
    by (simp add: numeral_3_eq_3)
  then show ?thesis using 1 by blast
qed

text \<open>
  Claim C10. On the example store, the query of \<^verbatim>\<open>GetProject\<close> for the absent project
  \<open>3\<close> succeeds and selects no row, and the function panics at \<^verbatim>\<open>pp[0]\<close>; the same
  for \<^verbatim>\<open>GetPlotConfiguration\<close> and the absent plot configuration \<open>6\<close>. For the
  project \<open>2\<close>, which exists, \<^verbatim>\<open>GetProject\<close> returns it. (By \<open>GetProject_no_rows\<close> and
  \<open>GetPlotConfiguration_no_rows\<close>, on every store a successful query without a matching
  row ends in the panic.)
\<close>

theorem getters_panic_on_no_rows:
  "GetProject (example_db (\<lambda>n. None)) 3 =
     (Panic ''index out of range [0] with length 0'', (example_db (\<lambda>n. None))\<lparr>calls := 1\<rparr>) \<and>
   GetPlotConfiguration (example_db (\<lambda>n. None)) 2 6 =
     (Panic ''index out of range [0] with length 0'', (example_db (\<lambda>n. None))\<lparr>calls := 1\<rparr>) \<and>
   GetProject (example_db (\<lambda>n. None)) 2 = (Ok example_project, (example_db (\<lambda>n. None))\<lparr>calls := 2\<rparr>)"
  by (simp add: GetProject_def GetPlotConfiguration_def Queryx_def driver_call_def
      ProjectFactory_def PlotConfigFactory_def v_plot_configuration_def
      example_db_def example_data_def example_plot_def example_project_def)

section \<open>Properties of the flexible collection decoder\<close>

lemma dropWhile_spaces:
  "\<forall>x \<in> set ws. json_space x \<Longrightarrow> \<not> json_space c \<Longrightarrow>
   dropWhile json_space (ws @ c # rest) = c # rest"
  by (simp add: dropWhile_append3)

lemma bracket_not_space [simp]: "\<not> json_space (CHR ''['')" "\<not> json_space (CHR ''{'')"
  by (simp_all add: json_space_def)

lemma JSONType_array:
  "\<forall>x \<in> set ws. json_space x \<Longrightarrow> JSONType (ws @ CHR ''['' # rest) = ''ARRAY''"
  by (simp add: JSONType_def dropWhile_spaces)

lemma JSONType_object:
  "\<forall>x \<in> set ws. json_space x \<Longrightarrow> JSONType (ws @ CHR ''{'' # rest) = ''OBJECT''"
  by (simp add: JSONType_def dropWhile_spaces)

lemma JSONType_other:
  "\<forall>x \<in> set ws. json_space x \<Longrightarrow> \<not> json_space c \<Longrightarrow> c \<noteq> CHR ''['' \<Longrightarrow> c \<noteq> CHR ''{'' \<Longrightarrow>
   JSONType (ws @ c # rest) = ''UNKNOWN''"
  by (simp add: JSONType_def dropWhile_spaces)

lemma JSONType_blank: "\<forall>x \<in> set ws. json_space x \<Longrightarrow> JSONType ws = ''UNKNOWN''"
proof -
  assume "\<forall>x \<in> set ws. json_space x"
  then have d: "dropWhile json_space ws = []" by simp
  show ?thesis by (simp only: JSONType_def d list.case)
qed

lemma JSONType_array_iff:
  "JSONType b = ''ARRAY'' \<longleftrightarrow>
     (\<exists>ws rest. (\<forall>x \<in> set ws. json_space x) \<and> b = ws @ CHR ''['' # rest)"
proof
  assume a: "JSONType b = ''ARRAY''"
  then obtain rest where d: "dropWhile json_space b = CHR ''['' # rest"
    by (auto simp: JSONType_def split: list.splits if_splits)
  have "b = takeWhile json_space b @ dropWhile json_space b" by simp
  with d have "b = takeWhile json_space b @ CHR ''['' # rest" by simp
  moreover have "\<forall>x \<in> set (takeWhile json_space b). json_space x"
    by (auto dest: set_takeWhileD)
  ultimately show "\<exists>ws rest. (\<forall>x \<in> set ws. json_space x) \<and> b = ws @ CHR ''['' # rest" by blast
next
  assume "\<exists>ws rest. (\<forall>x \<in> set ws. json_space x) \<and> b = ws @ CHR ''['' # rest"
  then show "JSONType b = ''ARRAY''" by (auto simp: JSONType_array)
qed

lemma JSONType_object_iff:
  "JSONType b = ''OBJECT'' \<longleftrightarrow>
     (\<exists>ws rest. (\<forall>x \<in> set ws. json_space x) \<and> b = ws @ CHR ''{'' # rest)"
proof
  assume a: "JSONType b = ''OBJECT''"
  then obtain rest where d: "dropWhile json_space b = CHR ''{'' # rest"
    by (auto simp: JSONType_def split: list.splits if_splits)
  have "b = takeWhile json_space b @ dropWhile json_space b" by simp
  with d have "b = takeWhile json_space b @ CHR ''{'' # rest" by simp
  moreover have "\<forall>x \<in> set (takeWhile json_space b). json_space x"
    by (auto dest: set_takeWhileD)
  ultimately show "\<exists>ws rest. (\<forall>x \<in> set ws. json_space x) \<and> b = ws @ CHR ''{'' # rest" by blast
next
  assume "\<exists>ws rest. (\<forall>x \<in> set ws. json_space x) \<and> b = ws @ CHR ''{'' # rest"
  then show "JSONType b = ''OBJECT''" by (auto simp: JSONType_object)
qed

text \<open>
  Claim C3. A payload whose first significant character opens an object and that
  \<^verbatim>\<open>json.Unmarshal\<close> decodes as the entity \<open>e\<close> gives exactly the one item \<open>e\<close>; a
  payload whose first significant character opens an array and that \<^verbatim>\<open>json.Unmarshal\<close>
  decodes as the entities \<open>es\<close> gives exactly \<open>es\<close>: as many items, in the same order.
\<close>

theorem decoder_object_and_array:
  "((\<forall>x \<in> set ws. json_space x) \<and> b = ws @ CHR ''{'' # rest \<and> unmarshal_entity b = Inr e \<longrightarrow>
      UnmarshalJSON unmarshal_slice unmarshal_entity b = Inr [e]) \<and>
   ((\<forall>x \<in> set ws. json_space x) \<and> b = ws @ CHR ''['' # rest \<and> unmarshal_slice b = Inr es \<longrightarrow>
      UnmarshalJSON unmarshal_slice unmarshal_entity b = Inr es)"
  by (auto simp: UnmarshalJSON_def JSONType_object JSONType_array)

text \<open>
  An object after a space, and an array of two objects, with decoders that accept exactly
  these two payloads.
\<close>

theorem decoder_object_and_array_witness:
  "UnmarshalJSON (\<lambda>b. if b = ''[{},{}]'' then Inr [0, 0 :: nat] else Inl (DecodeError ''bad''))
     (\<lambda>b. if b = '' {}'' then Inr 0 else Inl (DecodeError ''bad'')) '' {}'' = Inr [0] \<and>
   UnmarshalJSON (\<lambda>b. if b = ''[{},{}]'' then Inr [0, 0 :: nat] else Inl (DecodeError ''bad''))
     (\<lambda>b. if b = '' {}'' then Inr 0 else Inl (DecodeError ''bad'')) ''[{},{}]'' = Inr [0, 0]"
proof -
  let ?us = "\<lambda>b. if b = ''[{},{}]'' then Inr [0, 0 :: nat] else Inl (DecodeError ''bad'')"
  let ?ue = "\<lambda>b. if b = '' {}'' then Inr (0 :: nat) else Inl (DecodeError ''bad'')"
  have 1: "\<forall>x \<in> set '' ''. json_space x" by (simp add: json_space_def)
  have 2: "'' {}'' = '' '' @ CHR ''{'' # ''}''" by simp
  have 3: "?ue '' {}'' = Inr 0" by simp
  have 4: "\<forall>x \<in> set []. json_space x" by simp
  have 5: "''[{},{}]'' = [] @ CHR ''['' # ''{},{}]''" by simp
  have 6: "?us ''[{},{}]'' = Inr [0, 0]" by simp
  from decoder_object_and_array[where ws="'' ''" and b="'' {}''" and rest="''}''"
      and unmarshal_entity="?ue" and e=0 and unmarshal_slice="?us"] 1 2 3
  have a: "UnmarshalJSON ?us ?ue '' {}'' = Inr [0]" by blast
  from decoder_object_and_array[where ws="[]" and b="''[{},{}]''" and rest="''{},{}]''"
      and unmarshal_entity="?ue" and es="[0, 0]" and unmarshal_slice="?us"] 4 5 6
  have b: "UnmarshalJSON ?us ?ue ''[{},{}]'' = Inr [0, 0]" by blast
  from a b show ?thesis by (rule conjI)
qed

text \<open>
  Claim C4. The empty payload, the payload \<^verbatim>\<open>null\<close>, a payload of whitespace only, and a
  payload whose first significant character opens neither an array nor an object give zero
  items and no error, whatever \<^verbatim>\<open>json.Unmarshal\<close> would say of them. An error is
  returned only for a payload whose first significant character opens an array or an
  object and which \<^verbatim>\<open>json.Unmarshal\<close> fails to decode at that shape; the error is the
  one of \<^verbatim>\<open>json.Unmarshal\<close>.
\<close>

theorem decoder_empty_or_unknown:
  "(b = [] \<or> b = ''null'' \<or>
    (\<exists>ws c rest. (\<forall>x \<in> set ws. json_space x) \<and> (b = ws \<or>
        b = ws @ c # rest \<and> \<not> json_space c \<and> c \<noteq> CHR ''['' \<and> c \<noteq> CHR ''{'')) \<longrightarrow>
      UnmarshalJSON unmarshal_slice unmarshal_entity b = Inr []) \<and>
   (UnmarshalJSON unmarshal_slice unmarshal_entity b = Inl err \<longrightarrow>
      (\<exists>ws rest. (\<forall>x \<in> set ws. json_space x) \<and>
         (b = ws @ CHR ''['' # rest \<and> unmarshal_slice b = Inl err \<or>
          b = ws @ CHR ''{'' # rest \<and> unmarshal_entity b = Inl err)))"
proof (rule conjI; rule impI)
  assume "b = [] \<or> b = ''null'' \<or>
    (\<exists>ws c rest. (\<forall>x \<in> set ws. json_space x) \<and> (b = ws \<or>
        b = ws @ c # rest \<and> \<not> json_space c \<and> c \<noteq> CHR ''['' \<and> c \<noteq> CHR ''{''))"
  then have "JSONType b = ''UNKNOWN''"
    by (auto simp: JSONType_other JSONType_blank) (simp_all add: JSONType_def json_space_def)
  then show "UnmarshalJSON unmarshal_slice unmarshal_entity b = Inr []"
    by (simp add: UnmarshalJSON_def)
next
  assume a: "UnmarshalJSON unmarshal_slice unmarshal_entity b = Inl err"
  then consider "JSONType b = ''ARRAY''" "unmarshal_slice b = Inl err"
    | "JSONType b = ''OBJECT''" "unmarshal_entity b = Inl err"
    by (auto simp: UnmarshalJSON_def split: if_splits sum.splits)
  then show "\<exists>ws rest. (\<forall>x \<in> set ws. json_space x) \<and>
         (b = ws @ CHR ''['' # rest \<and> unmarshal_slice b = Inl err \<or>
          b = ws @ CHR ''{'' # rest \<and> unmarshal_entity b = Inl err)"
  proof cases
    case 1
    then show ?thesis unfolding JSONType_array_iff by blast
  next
    case 2
    then show ?thesis unfolding JSONType_object_iff by blast
  qed
qed

text \<open>
  The payloads \<^verbatim>\<open>null\<close>, empty and \<^verbatim>\<open>[1]\<close> with decoders that reject everything.
\<close>

theorem decoder_empty_or_unknown_witness:
  "UnmarshalJSON (\<lambda>b. Inl (DecodeError ''bad'')) (\<lambda>b. Inl (DecodeError ''bad'')) ''null'' =
     (Inr [] :: error + nat list) \<and>
   UnmarshalJSON (\<lambda>b. Inl (DecodeError ''bad'')) (\<lambda>b. Inl (DecodeError ''bad'')) [] =
     (Inr [] :: error + nat list) \<and>
   UnmarshalJSON (\<lambda>b. Inl (DecodeError ''bad'')) (\<lambda>b. Inl (DecodeError ''bad'')) ''[1]'' =
     (Inl (DecodeError ''bad'') :: error + nat list) \<and>
   (\<exists>ws rest. ''[1]'' = ws @ CHR ''['' # rest)"
proof -
  let ?us = "\<lambda>b :: string. (Inl (DecodeError ''bad'') :: error + nat list)"
  let ?ue = "\<lambda>b :: string. (Inl (DecodeError ''bad'') :: error + nat)"
  from decoder_empty_or_unknown[where b="''null''" and unmarshal_slice="?us" and unmarshal_entity="?ue"]
  have a: "UnmarshalJSON ?us ?ue ''null'' = Inr []" by blast
  from decoder_empty_or_unknown[where b="[]" and unmarshal_slice="?us" and unmarshal_entity="?ue"]
  have b: "UnmarshalJSON ?us ?ue [] = Inr []" by blast
  have c: "UnmarshalJSON ?us ?ue ''[1]'' = Inl (DecodeError ''bad'')"
    by (simp add: UnmarshalJSON_def JSONType_def json_space_def)
  from decoder_empty_or_unknown[where b="''[1]''" and unmarshal_slice="?us" and unmarshal_entity="?ue"
      and err="DecodeError ''bad''"] c
  have d: "\<exists>ws rest. ''[1]'' = ws @ CHR ''['' # rest" by blast
  from a b c d show ?thesis by blast
qed

section \<open>Properties of the handlers\<close>

lemmas handler_defs = ListInstrumentStatus_def GetInstrumentStatus_def
  CreateOrUpdateInstrumentStatus_def DeleteInstrumentStatus_def ComputedTimeseries_def
  ListAwareParameters_def ListAwarePlatformParameterConfig_def ListInstrumentNotes_def
  ListInstrumentInstrumentNotes_def GetInstrumentNote_def CreateInstrumentNote_def
  UpdateInstrumentNote_def DeleteInstrumentNote_def c_String_def c_JSON_def
  StatusOK_def StatusCreated_def StatusBadRequest_def StatusInternalServerError_def

lemma handler_status_set:
  "Get_profile c \<noteq> None \<longrightarrow>
   (\<exists>r. fst (handler rt env c) = Ok r \<and> status r \<in> {200, 201, 400, 500})"
  by (cases rt) (auto simp: handler_defs Let_def split: sum.splits option.splits)

lemma handler_one_call: "length (snd (handler rt env c)) \<le> 1"
  by (cases rt) (auto simp: handler_defs Let_def split: sum.splits option.splits)

lemma handler_storage_failure:
  "q \<in> set (snd (handler rt env c)) \<and> models env q = Inl e \<longrightarrow>
   (\<exists>r. fst (handler rt env c) = Ok r \<and>
       status r = (if rt \<in> {route_ListInstrumentStatus, route_GetInstrumentStatus,
                             route_ComputedTimeseries, route_UpdateInstrumentNote}
                   then 400 else 500))"
  by (cases rt) (simp_all add: handler_defs Let_def split: sum.splits option.splits)

lemma handler_storage_success:
  "q \<in> set (snd (handler rt env c)) \<and> models env q = Inr v \<longrightarrow>
   (\<exists>r. fst (handler rt env c) = Ok r \<and>
       status r = (if rt \<in> {route_CreateOrUpdateInstrumentStatus, route_CreateInstrumentNote}
                   then 201 else 200))"
  by (cases rt) (simp_all add: handler_defs Let_def split: sum.splits option.splits)

lemma handler_no_call:
  "Get_profile c \<noteq> None \<longrightarrow> snd (handler rt env c) = [] \<longrightarrow>
   (\<exists>r. fst (handler rt env c) = Ok r \<and> status r \<in> {400, 500})"
  by (cases rt) (simp_all add: handler_defs Let_def split: sum.splits option.splits)

lemma handler_bad_instrument_id:
  "rt \<in> {route_ListInstrumentStatus, route_CreateOrUpdateInstrumentStatus,
          route_ListInstrumentInstrumentNotes} \<and>
   uuid_Parse env (Param c ''instrument_id'') = Inl e \<longrightarrow>
   (\<exists>r. handler rt env c = (Ok r, []) \<and> status r = 400)"
  by (auto simp: handler_defs)

lemma handler_bad_status_id:
  "rt \<in> {route_GetInstrumentStatus, route_DeleteInstrumentStatus} \<and>
   uuid_Parse env (Param c ''status_id'') = Inl e \<longrightarrow>
   (\<exists>r. handler rt env c = (Ok r, []) \<and> status r = 400)"
  by (auto simp: handler_defs)

lemma handler_bad_note_id:
  "rt \<in> {route_GetInstrumentNote, route_UpdateInstrumentNote, route_DeleteInstrumentNote} \<and>
   uuid_Parse env (Param c ''note_id'') = Inl e \<longrightarrow>
   (\<exists>r. handler rt env c = (Ok r, []) \<and> status r = 400)"
  by (auto simp: handler_defs)

lemma handler_bad_status_body:
  "uuid_Parse env (Param c ''instrument_id'') = Inr i \<and>
   Bind_InstrumentStatusCollection env (Body c) = Inl e \<longrightarrow>
   (\<exists>r. handler route_CreateOrUpdateInstrumentStatus env c = (Ok r, []) \<and> status r = 400)"
  by (auto simp: handler_defs)

lemma handler_bad_notes_body:
  "Bind_InstrumentNoteCollection env (Body c) = Inl e \<longrightarrow>
   (\<exists>r. handler route_CreateInstrumentNote env c = (Ok r, []) \<and> status r = 400)"
  by (auto simp: handler_defs)

lemma handler_bad_note_body:
  "uuid_Parse env (Param c ''note_id'') = Inr i \<and>
   Bind_InstrumentNote env (zero_note i) (Body c) = Inl e \<longrightarrow>
   (\<exists>r. handler route_UpdateInstrumentNote env c = (Ok r, []) \<and> status r = 400)"
  by (auto simp: handler_defs)

lemma handler_random_failure:
  "uuid_Parse env (Param c ''instrument_id'') = Inr i \<and>
   Bind_InstrumentStatusCollection env (Body c) = Inr items \<and>
   assign_ids (uuid_NewRandom env) 0 items = Inl e \<longrightarrow>
   (\<exists>r. handler route_CreateOrUpdateInstrumentStatus env c = (Ok r, []) \<and> status r = 500)"
  by (auto simp: handler_defs)

text \<open>
  Claim C9, as the code has it. For every route, environment and request: when the request
  carries the profile, the handler answers with one of the status codes 200, 201, 400 and
  500. When the call to the storage layer fails, the status is 400 on the routes to
  \<^verbatim>\<open>ListInstrumentStatus\<close>, \<^verbatim>\<open>GetInstrumentStatus\<close>, \<^verbatim>\<open>ComputedTimeseries\<close> and
  \<^verbatim>\<open>UpdateInstrumentNote\<close>, and 500 on every other route; when it succeeds, the status is
  201 on the two routes that create and 200 on every other route. An identifier that
  \<^verbatim>\<open>uuid.Parse\<close> rejects and a body that \<^verbatim>\<open>c.Bind\<close> rejects are answered with 400 without
  a call to the storage layer; a failure of \<^verbatim>\<open>uuid.NewRandom\<close> is answered with 500
  without a call to the storage layer.
\<close>

theorem handler_statuses:
  "(Get_profile c \<noteq> None \<longrightarrow>
      (\<exists>r. fst (handler rt env c) = Ok r \<and> status r \<in> {200, 201, 400, 500})) \<and>
   (q \<in> set (snd (handler rt env c)) \<and> models env q = Inl e \<longrightarrow>
      (\<exists>r. fst (handler rt env c) = Ok r \<and>
         status r = (if rt \<in> {route_ListInstrumentStatus, route_GetInstrumentStatus,
                               route_ComputedTimeseries, route_UpdateInstrumentNote}
                     then 400 else 500))) \<and>
   (q \<in> set (snd (handler rt env c)) \<and> models env q = Inr v \<longrightarrow>
      (\<exists>r. fst (handler rt env c) = Ok r \<and>
         status r = (if rt \<in> {route_CreateOrUpdateInstrumentStatus, route_CreateInstrumentNote}
                     then 201 else 200))) \<and>
   (rt \<in> {route_ListInstrumentStatus, route_CreateOrUpdateInstrumentStatus,
           route_ListInstrumentInstrumentNotes} \<and>
    uuid_Parse env (Param c ''instrument_id'') = Inl e \<longrightarrow>
      (\<exists>r. handler rt env c = (Ok r, []) \<and> status r = 400)) \<and>
   (rt \<in> {route_GetInstrumentStatus, route_DeleteInstrumentStatus} \<and>
    uuid_Parse env (Param c ''status_id'') = Inl e \<longrightarrow>
      (\<exists>r. handler rt env c = (Ok r, []) \<and> status r = 400)) \<and>
   (rt \<in> {route_GetInstrumentNote, route_UpdateInstrumentNote, route_DeleteInstrumentNote} \<and>
    uuid_Parse env (Param c ''note_id'') = Inl e \<longrightarrow>
      (\<exists>r. handler rt env c = (Ok r, []) \<and> status r = 400)) \<and>
   (uuid_Parse env (Param c ''instrument_id'') = Inr i \<and>
    Bind_InstrumentStatusCollection env (Body c) = Inl e \<longrightarrow>
      (\<exists>r. handler route_CreateOrUpdateInstrumentStatus env c = (Ok r, []) \<and> status r = 400)) \<and>
   (Bind_InstrumentNoteCollection env (Body c) = Inl e \<longrightarrow>
      (\<exists>r. handler route_CreateInstrumentNote env c = (Ok r, []) \<and> status r = 400)) \<and>
   (uuid_Parse env (Param c ''note_id'') = Inr i \<and>
    Bind_InstrumentNote env (zero_note i) (Body c) = Inl e \<longrightarrow>
      (\<exists>r. handler route_UpdateInstrumentNote env c = (Ok r, []) \<and> status r = 400)) \<and>
   (uuid_Parse env (Param c ''instrument_id'') = Inr i \<and>
    Bind_InstrumentStatusCollection env (Body c) = Inr items \<and>
    assign_ids (uuid_NewRandom env) 0 items = Inl e \<longrightarrow>
      (\<exists>r. handler route_CreateOrUpdateInstrumentStatus env c = (Ok r, []) \<and> status r = 500))"
  by (intro conjI handler_status_set handler_storage_failure handler_storage_success
      handler_bad_instrument_id handler_bad_status_id handler_bad_note_id handler_bad_status_body
      handler_bad_notes_body handler_bad_note_body handler_random_failure)

text \<open>
  The claim as the spec words it fails: with a well-formed identifier and a storage layer
  that fails, \<^verbatim>\<open>ListInstrumentStatus\<close> answers 400, not 500.
\<close>

theorem storage_failure_answers_400:
  "models (example_env (\<lambda>q. Inl (DriverError ''connection refused''))) (models_ListInstrumentStatus 1) =
     Inl (DriverError ''connection refused'') \<and>
   handler route_ListInstrumentStatus (example_env (\<lambda>q. Inl (DriverError ''connection refused'')))
       (example_context ''a7540f69-c41e-43b3-b655-6e44097edb7e'') =
     (Ok \<lparr>status = 400, body = String ''connection refused''\<rparr>, [models_ListInstrumentStatus 1])"
  by (simp add: example_env_def example_context_def handler_defs)

text \<open>
  Three requests: a delete with a failing storage layer, a read with a malformed
  identifier, and a creation that succeeds.
\<close>

theorem handler_statuses_witness:
  "(\<exists>r. fst (handler route_DeleteInstrumentStatus
               (example_env (\<lambda>q. Inl (DriverError ''connection refused'')))
               (example_context ''a7540f69-c41e-43b3-b655-6e44097edb7e'')) = Ok r \<and> status r = 500) \<and>
   (\<exists>r. handler route_GetInstrumentNote (example_env (\<lambda>q. Inr 0)) (example_context ''bad'') = (Ok r, []) \<and>
        status r = 400) \<and>
   (\<exists>r. fst (handler route_CreateInstrumentNote (example_env (\<lambda>q. Inr 0))
               (example_context ''a7540f69-c41e-43b3-b655-6e44097edb7e'')) = Ok r \<and> status r = 201)"
proof -
  let ?down = "example_env (\<lambda>q. Inl (DriverError ''connection refused''))"
  let ?up = "example_env (\<lambda>q. Inr 0)"
  let ?c = "example_context ''a7540f69-c41e-43b3-b655-6e44097edb7e''"
  have 1: "models_DeleteInstrumentStatus 1 \<in> set (snd (handler route_DeleteInstrumentStatus ?down ?c))"
    by (simp add: example_env_def example_context_def handler_defs)
  have 2: "models ?down (models_DeleteInstrumentStatus 1) = Inl (DriverError ''connection refused'')"
    by (simp add: example_env_def)
  from handler_statuses[where rt=route_DeleteInstrumentStatus and env="?down" and c="?c"
      and q="models_DeleteInstrumentStatus 1" and e="DriverError ''connection refused''",
      THEN conjunct2, THEN conjunct1] 1 2
  have "\<exists>r. fst (handler route_DeleteInstrumentStatus ?down ?c) = Ok r \<and> status r = 500"
    by simp
  moreover
  have 3: "uuid_Parse ?up (Param (example_context ''bad'') ''note_id'') =
      Inl (LibraryError ''invalid UUID length: 3'')"
    by (simp add: example_env_def example_context_def)
  from handler_statuses[where rt=route_GetInstrumentNote and env="?up" and c="example_context ''bad''"
      and e="LibraryError ''invalid UUID length: 3''",
      THEN conjunct2, THEN conjunct2, THEN conjunct2, THEN conjunct2, THEN conjunct2, THEN conjunct1] 3
  have "\<exists>r. handler route_GetInstrumentNote ?up (example_context ''bad'') = (Ok r, []) \<and> status r = 400"
    by blast
  moreover
  have 4: "models_CreateInstrumentNote [] \<in> set (snd (handler route_CreateInstrumentNote ?up ?c))"
    by (simp add: example_env_def example_context_def handler_defs)
  have 5: "models ?up (models_CreateInstrumentNote []) = Inr 0" by (simp add: example_env_def)
  from handler_statuses[where rt=route_CreateInstrumentNote and env="?up" and c="?c"
      and q="models_CreateInstrumentNote []" and v=0,
      THEN conjunct2, THEN conjunct2, THEN conjunct1] 4 5
  have "\<exists>r. fst (handler route_CreateInstrumentNote ?up ?c) = Ok r \<and> status r = 201"
    by simp
  ultimately show ?thesis by blast
qed

end
